theory Spec2Isabelle
  imports Complex_Main
begin

section \<open>The TDC Mark III simulation engine (tdc\_engine.js)\<close>

text \<open>
  A shallow embedding of \<^verbatim>\<open>src/patrolReports/tdc_simulator/tdc_engine.js\<close>, lines 1-668
  (the engine with servo inertia and cam-derived torpedo path corrections).

  JavaScript numbers are modelled by \<^typ>\<open>real\<close>: every arithmetic operation is the exact
  one, \<^verbatim>\<open>Math.sin\<close>, \<^verbatim>\<open>Math.cos\<close>, \<^verbatim>\<open>Math.sqrt\<close>, \<^verbatim>\<open>Math.abs\<close>, \<^verbatim>\<open>Math.sign\<close>,
  \<^verbatim>\<open>Math.max\<close> and \<^verbatim>\<open>Math.min\<close> are \<open>sin\<close>, \<open>cos\<close>, \<open>sqrt\<close>, \<open>abs\<close>, \<open>sgn\<close>, \<open>max\<close> and
  \<open>min\<close>. Rounding, overflow and the values NaN and Infinity are outside this model; the
  one place where they decide a property (the loop of \<^verbatim>\<open>normalizeAngle\<close>) has a second
  model on JavaScript number values further down. The two \<^verbatim>\<open>console.log\<close> calls guarded by
  \<^verbatim>\<open>Math.random()\<close> write no engine state and are left out. Each object is a record, each
  method takes the object and returns the updated one.
\<close>

subsection \<open>Mechanical components\<close>

datatype operation = Add | Subtract

record differential =
  input1 :: real
  input2 :: real
  diff_output :: real
  diff_rotation :: real

definition Differential_new :: differential where
  "Differential_new = \<lparr>input1 = 0, input2 = 0, diff_output = 0, diff_rotation = 0\<rparr>"

text \<open>
  \<^verbatim>\<open>Differential.update\<close>; the value returned is \<open>diff_output\<close> of the result. The fields
  \<^verbatim>\<open>id\<close>, \<^verbatim>\<open>name\<close> and \<^verbatim>\<open>operation\<close> of a component (and \<^verbatim>\<open>profileFn\<close> of a cam) are
  set by its constructor and never assigned again: they are not part of the record, and
  each call of \<open>update\<close> names the operation (the profile) its component was built with.
\<close>

definition Differential_update :: "operation \<Rightarrow> differential \<Rightarrow> real \<Rightarrow> real \<Rightarrow> differential" where
  "Differential_update opn d i1 i2 =
     d\<lparr>input1 := i1, input2 := i2,
       diff_output := (if opn = Add then i1 + i2 else i1 - i2),
       diff_rotation := diff_rotation d + (i1 + i2) / 2\<rparr>"

record integrator =
  rollerPosition :: real
  discRate :: real
  accumulated :: real
  discRotation :: real
  outputRotation :: real

definition Integrator_new :: integrator where
  "Integrator_new =
     \<lparr>rollerPosition = 0, discRate = 0, accumulated = 0, discRotation = 0, outputRotation = 0\<rparr>"

definition Integrator_update :: "integrator \<Rightarrow> real \<Rightarrow> real \<Rightarrow> real \<Rightarrow> integrator" where
  "Integrator_update i r d dt =
     (let outputRate = r * d in
      i\<lparr>rollerPosition := r, discRate := d,
        accumulated := accumulated i + outputRate * dt,
        discRotation := discRotation i + d * dt * 50,
        outputRotation := outputRotation i + outputRate * dt * 50\<rparr>)"

definition Integrator_reset :: "integrator \<Rightarrow> integrator" where
  "Integrator_reset i = i\<lparr>accumulated := 0, discRotation := 0, outputRotation := 0\<rparr>"

record resolver =
  res_inputAngle :: real
  sinOutput :: real
  cosOutput :: real
  res_rotation :: real

definition Resolver_new :: resolver where
  "Resolver_new = \<lparr>res_inputAngle = 0, sinOutput = 0, cosOutput = 0, res_rotation = 0\<rparr>"

definition Resolver_update :: "resolver \<Rightarrow> real \<Rightarrow> resolver" where
  "Resolver_update r angleDegrees =
     (let angleRad = angleDegrees * pi / 180 in
      r\<lparr>res_inputAngle := angleDegrees, sinOutput := sin angleRad, cosOutput := cos angleRad,
        res_rotation := angleDegrees\<rparr>)"

record cam =
  cam_inputAngle :: real
  cam_output :: real
  cam_rotation :: real

definition Cam_new :: cam where
  "Cam_new = \<lparr>cam_inputAngle = 0, cam_output = 0, cam_rotation = 0\<rparr>"

definition Cam_update :: "(real \<Rightarrow> real) \<Rightarrow> cam \<Rightarrow> real \<Rightarrow> cam" where
  "Cam_update profileFn c a =
     c\<lparr>cam_inputAngle := a, cam_output := profileFn a, cam_rotation := a\<rparr>"

subsection \<open>The engine object\<close>

definition KNOTS_TO_YPS :: real where "KNOTS_TO_YPS = 2025.4 / 3600"
definition TORPEDO_SPEED :: real where "TORPEDO_SPEED = 46"
definition TUBE_BASE_LINE :: real where "TUBE_BASE_LINE = 50"
definition REACH :: real where "REACH = 75"
definition TURN_RADIUS :: real where "TURN_RADIUS = 130"
definition gyroServoRate :: real where "gyroServoRate = 8"
definition servoInertia :: real where "servoInertia = 0.95"

definition getTotalStraightRun :: real where
  "getTotalStraightRun = \<bar>TUBE_BASE_LINE\<bar> + REACH"

definition camP_profile :: "real \<Rightarrow> real" where
  "camP_profile g = getTotalStraightRun"

definition camJ_profile :: "real \<Rightarrow> real" where
  "camJ_profile g = (let g_rad = g * pi / 180 in TURN_RADIUS * (1 - cos g_rad))"

definition camUs_profile :: "real \<Rightarrow> real" where
  "camUs_profile g =
     (let g_rad = \<bar>g\<bar> * pi / 180;
          arcLength = TURN_RADIUS * g_rad;
          chordLength = 2 * TURN_RADIUS * sin (g_rad / 2)
      in arcLength - chordLength)"

record tdc_inputs =
  ownCourse :: real
  ownSpeed :: real
  targetBearing :: real
  targetRange :: real
  targetCourse :: real
  targetSpeed :: real

record tdc_state =
  ownX :: real
  ownY :: real
  targetX :: real
  targetY :: real
  elapsedTime :: real

record tdc_outputs =
  out_gyroAngle :: real
  relativeBearing :: real
  targetAngle :: real
  presentBearing :: real
  presentRange :: real
  torpedoRun :: real
  runTime :: real
  trackAngle :: real
  isSolved :: bool
  solverError :: real

record tdc =
  inputs :: tdc_inputs
  state :: tdc_state
  diff7 :: differential
  diff33 :: differential
  resolver13 :: resolver
  resolver34 :: resolver
  int20 :: integrator
  int25 :: integrator
  int14 :: integrator
  int15 :: integrator
  int35 :: integrator
  int36 :: integrator
  diff28 :: differential
  diff29 :: differential
  gyroAngle :: real
  servoVelocity :: real
  resolver2FA :: resolver
  camP :: cam
  camJ :: cam
  camUs :: cam
  diff22FA :: differential
  outputs :: tdc_outputs

text \<open>
  The constructor of \<^verbatim>\<open>TDCMarkIII\<close> (lines 133-281). It builds \<open>diff7\<close> and \<open>diff33\<close> with
  the operation \<^verbatim>\<open>'subtract'\<close>, \<open>diff28\<close>, \<open>diff29\<close> and \<open>diff22FA\<close> with \<^verbatim>\<open>'add'\<close>, and the
  three cams with the profiles above.
\<close>

definition TDCMarkIII_new :: tdc where
  "TDCMarkIII_new =
     \<lparr>inputs = \<lparr>ownCourse = 0, ownSpeed = 0, targetBearing = 0, targetRange = 0,
                 targetCourse = 0, targetSpeed = 0\<rparr>,
      state = \<lparr>ownX = 0, ownY = 0, targetX = 0, targetY = 0, elapsedTime = 0\<rparr>,
      diff7 = Differential_new,
      diff33 = Differential_new,
      resolver13 = Resolver_new,
      resolver34 = Resolver_new,
      int20 = Integrator_new, int25 = Integrator_new, int14 = Integrator_new,
      int15 = Integrator_new, int35 = Integrator_new, int36 = Integrator_new,
      diff28 = Differential_new,
      diff29 = Differential_new,
      gyroAngle = 0,
      servoVelocity = 0,
      resolver2FA = Resolver_new,
      camP = Cam_new,
      camJ = Cam_new,
      camUs = Cam_new,
      diff22FA = Differential_new,
      outputs = \<lparr>out_gyroAngle = 0, relativeBearing = 0, targetAngle = 0, presentBearing = 0,
                  presentRange = 0, torpedoRun = 0, runTime = 0, trackAngle = 0,
                  isSolved = False, solverError = 999\<rparr>\<rparr>"

subsection \<open>normalizeAngle\<close>

text \<open>
  The two \<^verbatim>\<open>while\<close> loops of \<^verbatim>\<open>normalizeAngle\<close> (lines 635-639), one function each. On
  a real number each loop ends: the measure is the rounded-up distance to the bound.
\<close>

function normalizeAngle_down :: "real \<Rightarrow> real" where
  "normalizeAngle_down angle = (if angle > 180 then normalizeAngle_down (angle - 360) else angle)"
  by pat_completeness auto
termination
proof (relation "measure (\<lambda>a. nat \<lceil>a\<rceil>)")
  show "wf (measure (\<lambda>a::real. nat \<lceil>a\<rceil>))" by simp
next
  fix angle :: real
  assume a: "180 < angle"
  have "\<lceil>angle - 360\<rceil> = \<lceil>angle\<rceil> - 360"
    using ceiling_diff_of_int [of angle 360] by simp
  moreover have "0 < \<lceil>angle\<rceil>" using a by linarith
  ultimately show "(angle - 360, angle) \<in> measure (\<lambda>a. nat \<lceil>a\<rceil>)" by simp
qed

function normalizeAngle_up :: "real \<Rightarrow> real" where
  "normalizeAngle_up angle = (if angle < -180 then normalizeAngle_up (angle + 360) else angle)"
  by pat_completeness auto
termination
proof (relation "measure (\<lambda>a. nat \<lceil>- a\<rceil>)")
  show "wf (measure (\<lambda>a::real. nat \<lceil>- a\<rceil>))" by simp
next
  fix angle :: real
  assume a: "angle < - 180"
  have "\<lceil>- (angle + 360)\<rceil> = \<lceil>- angle\<rceil> - 360"
    using ceiling_diff_of_int [of "- angle" 360] by simp
  moreover have "0 < \<lceil>- angle\<rceil>" using a by linarith
  ultimately show "(angle + 360, angle) \<in> measure (\<lambda>a. nat \<lceil>- a\<rceil>)" by simp
qed

declare normalizeAngle_down.simps [simp del]
declare normalizeAngle_up.simps [simp del]

definition normalizeAngle :: "real \<Rightarrow> real" where
  "normalizeAngle angle = normalizeAngle_up (normalizeAngle_down angle)"

subsection \<open>Driver: positions and present geometry\<close>

text \<open>
  \<^verbatim>\<open>Math.atan2(y, x)\<close> is a library function; on real arguments (no signed zero) it is the
  angle of the point \<open>(x, y)\<close> in \<open>(-\<pi>, \<pi>]\<close>, and \<open>0\<close> at the origin.
\<close>

definition atan2 :: "real \<Rightarrow> real \<Rightarrow> real" where
  "atan2 y x =
     (if x > 0 then arctan (y / x)
      else if x < 0 then (if y \<ge> 0 then arctan (y / x) + pi else arctan (y / x) - pi)
      else if y > 0 then pi / 2
      else if y < 0 then - pi / 2
      else 0)"

definition initialize :: "tdc \<Rightarrow> tdc" where
  "initialize s =
     (let bearingRad = targetBearing (inputs s) * pi / 180;
          st = (state s)\<lparr>ownX := 0, ownY := 0,
                  targetX := targetRange (inputs s) * sin bearingRad,
                  targetY := targetRange (inputs s) * cos bearingRad,
                  elapsedTime := 0\<rparr>;
          relBearing = normalizeAngle (targetBearing (inputs s) - ownCourse (inputs s));
          g = relBearing * 0.8;
          g' = max (-90) (min 90 g)
      in s\<lparr>state := st,
           int20 := Integrator_reset (int20 s),
           int25 := Integrator_reset (int25 s),
           int14 := Integrator_reset (int14 s),
           int15 := Integrator_reset (int15 s),
           int35 := Integrator_reset (int35 s),
           int36 := Integrator_reset (int36 s),
           gyroAngle := g',
           servoVelocity := 0,
           outputs := (outputs s)\<lparr>isSolved := False\<rparr>\<rparr>)"

definition updatePositions :: "real \<Rightarrow> tdc \<Rightarrow> tdc" where
  "updatePositions dt s =
     (let ownCourseRad = ownCourse (inputs s) * pi / 180;
          ownSpeedYps = ownSpeed (inputs s) * KNOTS_TO_YPS;
          targetCourseRad = targetCourse (inputs s) * pi / 180;
          targetSpeedYps = targetSpeed (inputs s) * KNOTS_TO_YPS
      in s\<lparr>state := (state s)\<lparr>
             ownX := ownX (state s) + ownSpeedYps * sin ownCourseRad * dt,
             ownY := ownY (state s) + ownSpeedYps * cos ownCourseRad * dt,
             targetX := targetX (state s) + targetSpeedYps * sin targetCourseRad * dt,
             targetY := targetY (state s) + targetSpeedYps * cos targetCourseRad * dt,
             elapsedTime := elapsedTime (state s) + dt\<rparr>\<rparr>)"

definition calculatePresentGeometry :: "tdc \<Rightarrow> tdc" where
  "calculatePresentGeometry s =
     (let dx = targetX (state s) - ownX (state s);
          dy = targetY (state s) - ownY (state s);
          b = atan2 dx dy * 180 / pi
      in s\<lparr>outputs := (outputs s)\<lparr>
             presentRange := sqrt (dx * dx + dy * dy),
             presentBearing := (if b < 0 then b + 360 else b)\<rparr>\<rparr>)"

subsection \<open>Position Keeper\<close>

definition runPositionKeeper :: "real \<Rightarrow> tdc \<Rightarrow> tdc" where
  "runPositionKeeper dt s =
     (let So = ownSpeed (inputs s) * KNOTS_TO_YPS;
          S = targetSpeed (inputs s) * KNOTS_TO_YPS;
          B = presentBearing (outputs s);
          Co = ownCourse (inputs s);
          C = targetCourse (inputs s);
          d7 = Differential_update Subtract (diff7 s) B Co;
          Br = diff_output d7;
          relB = normalizeAngle Br;
          d33 = Differential_update Subtract (diff33 s) (B + 180) C;
          A = diff_output d33;
          tgtA = normalizeAngle A;
          r13 = Resolver_update (resolver13 s) relB;
          r34 = Resolver_update (resolver34 s) tgtA;
          i20 = Integrator_update (int20 s) 1.0 So dt;
          i25 = Integrator_update (int25 s) 1.0 S dt;
          i14 = Integrator_update (int14 s) (sinOutput r13) So dt;
          i15 = Integrator_update (int15 s) (cosOutput r13) So dt;
          i35 = Integrator_update (int35 s) (sinOutput r34) S dt;
          i36 = Integrator_update (int36 s) (cosOutput r34) S dt;
          d28 = Differential_update Add (diff28 s) (accumulated i14) (accumulated i35);
          d29 = Differential_update Add (diff29 s) (accumulated i15) (accumulated i36)
      in s\<lparr>diff7 := d7, diff33 := d33, resolver13 := r13, resolver34 := r34,
           int20 := i20, int25 := i25, int14 := i14, int15 := i15, int35 := i35, int36 := i36,
           diff28 := d28, diff29 := d29,
           outputs := (outputs s)\<lparr>relativeBearing := relB, targetAngle := tgtA\<rparr>\<rparr>)"

subsection \<open>Angle Solver\<close>

record error_terms =
  errorXVII :: real
  errorXVIII :: real
  err_H :: real
  err_I :: real
  err_J :: real
  err_Us :: real

text \<open>
  The closure \<^verbatim>\<open>computeError\<close> of \<^verbatim>\<open>runAngleSolver\<close> (lines 415-470). It reads the
  present range, the relative bearing and the target angle from the outputs and the target
  speed from the inputs; none of them changes while \<^verbatim>\<open>runAngleSolver\<close> calls it.
\<close>

definition computeError :: "tdc \<Rightarrow> real \<Rightarrow> error_terms" where
  "computeError s testGyro =
     (let R = presentRange (outputs s);
          Br = relativeBearing (outputs s);
          S = targetSpeed (inputs s) * KNOTS_TO_YPS;
          torpedoSpeedYps = TORPEDO_SPEED * KNOTS_TO_YPS;
          G_rad = testGyro * pi / 180;
          G_minus_Br = testGyro - Br;
          G_minus_Br_rad = G_minus_Br * pi / 180;
          sin_G_minus_Br = sin G_minus_Br_rad;
          cos_G_minus_Br = cos G_minus_Br_rad;
          PM = getTotalStraightRun;
          Z = TURN_RADIUS;
          arcLength = Z * \<bar>G_rad\<bar>;
          straightPortionCovered = PM * cos G_rad + Z * sin \<bar>G_rad\<bar>;
          finalRun = max 0 (R - straightPortionCovered);
          torpedoPath = PM + arcLength + finalRun;
          estRunTime = torpedoPath / torpedoSpeedYps;
          H = S * estRunTime;
          A = targetAngle (outputs s);
          I = A + G_minus_Br;
          I_rad = I * pi / 180;
          sinI = sin I_rad;
          cosI = cos I_rad;
          J = Z * (1 - cos G_rad);
          chordLength = 2 * Z * sin (\<bar>G_rad\<bar> / 2);
          Us = arcLength - chordLength;
          eXVII = R * cos_G_minus_Br - H * cosI - Us - PM * cos G_rad;
          eXVIII = R * sin_G_minus_Br - H * sinI - J - PM * sin G_rad
      in \<lparr>errorXVII = eXVII, errorXVIII = eXVIII, err_H = H, err_I = I, err_J = J,
           err_Us = Us\<rparr>)"

text \<open>The hysteresis on the solved flag (lines 500-519).\<close>

definition solveThreshold :: "real \<Rightarrow> real" where
  "solveThreshold R = max 10 (R * 0.005)"

definition unsolvThreshold :: "real \<Rightarrow> real" where
  "unsolvThreshold R = solveThreshold R * 10"

definition updateSolved :: "bool \<Rightarrow> real \<Rightarrow> real \<Rightarrow> bool" where
  "updateSolved solved eXVIII R =
     (let isLateralSolved = \<bar>eXVIII\<bar> < solveThreshold R in
      if solved then (if \<bar>eXVIII\<bar> > unsolvThreshold R then False else solved)
      else (if isLateralSolved then True else solved))"

text \<open>The target velocity of the servo (lines 535-550).\<close>

definition servoTargetVelocity :: "real \<Rightarrow> real \<Rightarrow> real \<Rightarrow> real" where
  "servoTargetVelocity eXVIII dErrXVIII_dG servoSpeedMultiplier =
     (if \<bar>dErrXVIII_dG\<bar> > 0.1 then
        (let idealStep = - eXVIII / dErrXVIII_dG;
             targetVelocity = sgn idealStep * gyroServoRate * servoSpeedMultiplier;
             errorMag = \<bar>eXVIII\<bar>
         in if errorMag < 50 then targetVelocity * (errorMag / 50) else targetVelocity)
      else - sgn eXVIII * gyroServoRate * 0.3 * servoSpeedMultiplier)"

definition runAngleSolver :: "real \<Rightarrow> tdc \<Rightarrow> tdc" where
  "runAngleSolver dt s =
     (let R = presentRange (outputs s);
          Br = relativeBearing (outputs s);
          torpedoSpeedYps = TORPEDO_SPEED * KNOTS_TO_YPS;
          errors = computeError s (gyroAngle s);
          eXVII = errorXVII errors;
          eXVIII = errorXVIII errors;
          G_minus_Br = gyroAngle s - Br;
          r2FA = Resolver_update (resolver2FA s) G_minus_Br;
          cP = Cam_update camP_profile (camP s) (gyroAngle s);
          cJ = Cam_update camJ_profile (camJ s) (gyroAngle s);
          cUs = Cam_update camUs_profile (camUs s) (gyroAngle s);
          solved = updateSolved (isSolved (outputs s)) eXVIII R;
          servoSpeedMultiplier = (if solved then 0.3 else 1.0);
          servoRuns = (\<not> solved \<or> \<bar>eXVIII\<bar> > solveThreshold R * 0.5);
          delta = 0.5;
          errPlus = computeError s (gyroAngle s + delta);
          errMinus = computeError s (gyroAngle s - delta);
          dErrXVIII_dG = (errorXVIII errPlus - errorXVIII errMinus) / (2 * delta);
          targetVelocity = servoTargetVelocity eXVIII dErrXVIII_dG servoSpeedMultiplier;
          v = (if servoRuns
               then servoVelocity s * servoInertia + targetVelocity * (1 - servoInertia)
               else servoVelocity s * 0.8);
          g = (if servoRuns then max (-90) (min 90 (gyroAngle s + v * dt)) else gyroAngle s);
          d22 = Differential_update Add (diff22FA s) g 0;
          torpedoHeading = ownCourse (inputs s) + g;
          ta = \<bar>normalizeAngle (torpedoHeading - targetCourse (inputs s) + 180)\<bar>;
          ta' = (if ta > 180 then 360 - ta else ta);
          G_minus_Br_rad = (g - Br) * pi / 180;
          run = R / max 0.5 (cos G_minus_Br_rad)
      in s\<lparr>resolver2FA := r2FA, camP := cP, camJ := cJ, camUs := cUs,
           gyroAngle := g, servoVelocity := v, diff22FA := d22,
           outputs := (outputs s)\<lparr>
             solverError := sqrt (eXVII * eXVII + eXVIII * eXVIII),
             isSolved := solved,
             out_gyroAngle := g,
             trackAngle := ta',
             torpedoRun := run,
             runTime := run / torpedoSpeedYps\<rparr>\<rparr>)"

subsection \<open>step and setInputs\<close>

definition step :: "real \<Rightarrow> tdc \<Rightarrow> tdc" where
  "step dt s = runAngleSolver dt (runPositionKeeper dt (calculatePresentGeometry (updatePositions dt s)))"

text \<open>
  \<^verbatim>\<open>setInputs\<close> is \<^verbatim>\<open>Object.assign(this.inputs, inputs)\<close>: every own property of the argument
  is written to the property of the same name of \<^verbatim>\<open>this.inputs\<close>. The argument is a map
  from property names to numbers. A property that is none of the six inputs would become a
  new property of \<^verbatim>\<open>this.inputs\<close>, which no method of the engine reads; the record has no
  place for it.
\<close>

definition assignField :: "(string \<rightharpoonup> real) \<Rightarrow> string \<Rightarrow> real \<Rightarrow> real" where
  "assignField obj key old = (case obj key of Some v \<Rightarrow> v | None \<Rightarrow> old)"

definition setInputs :: "(string \<rightharpoonup> real) \<Rightarrow> tdc \<Rightarrow> tdc" where
  "setInputs obj s =
     s\<lparr>inputs := (inputs s)\<lparr>
         ownCourse := assignField obj ''ownCourse'' (ownCourse (inputs s)),
         ownSpeed := assignField obj ''ownSpeed'' (ownSpeed (inputs s)),
         targetBearing := assignField obj ''targetBearing'' (targetBearing (inputs s)),
         targetRange := assignField obj ''targetRange'' (targetRange (inputs s)),
         targetCourse := assignField obj ''targetCourse'' (targetCourse (inputs s)),
         targetSpeed := assignField obj ''targetSpeed'' (targetSpeed (inputs s))\<rparr>\<rparr>"

text \<open>\<^verbatim>\<open>computeIdealGyro\<close> (lines 595-613): the bearing of the intercept point, relative to own course.\<close>

definition computeIdealGyro :: "tdc \<Rightarrow> real" where
  "computeIdealGyro s =
     (let dx = targetX (state s) - ownX (state s);
          dy = targetY (state s) - ownY (state s);
          torpedoSpeedYps = TORPEDO_SPEED * KNOTS_TO_YPS;
          targetSpeedYps = targetSpeed (inputs s) * KNOTS_TO_YPS;
          range = sqrt (dx * dx + dy * dy);
          estRunTime = range / torpedoSpeedYps;
          targetAdvance = targetSpeedYps * estRunTime;
          courseRad = targetCourse (inputs s) * pi / 180;
          futureX = dx + targetAdvance * sin courseRad;
          futureY = dy + targetAdvance * cos courseRad;
          b = atan2 futureX futureY * 180 / pi;
          interceptBearing = (if b < 0 then b + 360 else b)
      in normalizeAngle (interceptBearing - ownCourse (inputs s)))"

subsection \<open>Sequences of calls\<close>

text \<open>A caller drives the engine by a sequence of calls of its three mutating methods.\<close>

datatype call = SetInputs "string \<rightharpoonup> real" | Initialize | Step real

fun exec :: "call \<Rightarrow> tdc \<Rightarrow> tdc" where
  "exec (SetInputs obj) s = setInputs obj s"
| "exec Initialize s = initialize s"
| "exec (Step dt) s = step dt s"

fun run :: "call list \<Rightarrow> tdc \<Rightarrow> tdc" where
  "run [] s = s"
| "run (c # cs) s = run cs (exec c s)"

text \<open>\<open>steps dts s\<close>: the calls \<^verbatim>\<open>step(dt)\<close> for the elements of \<open>dts\<close>, in order.\<close>

fun steps :: "real list \<Rightarrow> tdc \<Rightarrow> tdc" where
  "steps [] s = s"
| "steps (dt # dts) s = steps dts (step dt s)"


subsection \<open>Observations of one step\<close>

text \<open>
  Names for the values that \<^verbatim>\<open>runAngleSolver\<close> binds on its way: the residual Error XVIII at
  the current estimate, the new solved flag, whether the servo branch runs, the finite
  difference, the new servo velocity and the new gyro angle. They are the same terms as in
  \<open>runAngleSolver\<close>; the lemma \<open>runAngleSolver_char\<close> below states the function through them.
\<close>

definition solver_residual :: "tdc \<Rightarrow> real" where
  "solver_residual s = errorXVIII (computeError s (gyroAngle s))"

definition solver_solved :: "tdc \<Rightarrow> bool" where
  "solver_solved s =
     updateSolved (isSolved (outputs s)) (solver_residual s) (presentRange (outputs s))"

definition solver_servoRuns :: "tdc \<Rightarrow> bool" where
  "solver_servoRuns s =
     (\<not> solver_solved s \<or> \<bar>solver_residual s\<bar> > solveThreshold (presentRange (outputs s)) * 0.5)"

definition solver_derivative :: "tdc \<Rightarrow> real" where
  "solver_derivative s =
     (errorXVIII (computeError s (gyroAngle s + 0.5))
       - errorXVIII (computeError s (gyroAngle s - 0.5))) / (2 * 0.5)"

definition solver_velocity :: "tdc \<Rightarrow> real" where
  "solver_velocity s =
     (if solver_servoRuns s
      then servoVelocity s * servoInertia
           + servoTargetVelocity (solver_residual s) (solver_derivative s)
               (if solver_solved s then 0.3 else 1.0) * (1 - servoInertia)
      else servoVelocity s * 0.8)"

definition solver_gyro :: "real \<Rightarrow> tdc \<Rightarrow> real" where
  "solver_gyro dt s =
     (if solver_servoRuns s then max (- 90) (min 90 (gyroAngle s + solver_velocity s * dt))
      else gyroAngle s)"

text \<open>The state on which \<^verbatim>\<open>step\<close> calls \<^verbatim>\<open>runAngleSolver\<close>, and what the solver sees there.\<close>

definition beforeSolver :: "real \<Rightarrow> tdc \<Rightarrow> tdc" where
  "beforeSolver dt s = runPositionKeeper dt (calculatePresentGeometry (updatePositions dt s))"

definition stepResidual :: "real \<Rightarrow> tdc \<Rightarrow> real" where
  "stepResidual dt s = solver_residual (beforeSolver dt s)"

definition stepRange :: "real \<Rightarrow> tdc \<Rightarrow> real" where
  "stepRange dt s = presentRange (outputs (beforeSolver dt s))"

definition bearingOf :: "real \<Rightarrow> real \<Rightarrow> real" where
  "bearingOf dx dy = (let b = atan2 dx dy * 180 / pi in if b < 0 then b + 360 else b)"

text \<open>A static scenario: own ship and target do not move.\<close>

definition static :: "tdc \<Rightarrow> bool" where
  "static s = (ownSpeed (inputs s) = 0 \<and> targetSpeed (inputs s) = 0)"

text \<open>Two engine states with the same inputs and the same positions; and the same gyro estimate.\<close>

definition same_place :: "tdc \<Rightarrow> tdc \<Rightarrow> bool" where
  "same_place s t =
     (inputs s = inputs t \<and> ownX (state s) = ownX (state t) \<and> ownY (state s) = ownY (state t)
      \<and> targetX (state s) = targetX (state t) \<and> targetY (state s) = targetY (state t))"

definition same_scene :: "tdc \<Rightarrow> tdc \<Rightarrow> bool" where
  "same_scene s t = (same_place s t \<and> gyroAngle s = gyroAngle t)"

definition gyro_inv :: "tdc \<Rightarrow> bool" where
  "gyro_inv s = (- 90 \<le> gyroAngle s \<and> gyroAngle s \<le> 90
     \<and> - 90 \<le> out_gyroAngle (outputs s) \<and> out_gyroAngle (outputs s) \<le> 90)"

subsection \<open>The governing relations as the specification writes them\<close>

text \<open>
  The relations of the Angle Solver in the words of the specification: \<open>D\<close> is the straight
  run \<open>|P| + M = 125\<close> yards, \<open>Z = 130\<close> yards the turn radius, angles are in degrees. The
  remaining straight run after the turn is the range less the part covered by the straight
  run and the turn, and never negative.
\<close>

definition rad :: "real \<Rightarrow> real" where "rad d = d * pi / 180"
definition spec_D :: real where "spec_D = 125"
definition spec_Z :: real where "spec_Z = 130"
definition spec_J :: "real \<Rightarrow> real" where "spec_J G = spec_Z * (1 - cos (rad G))"
definition spec_Us :: "real \<Rightarrow> real" where
  "spec_Us G = spec_Z * rad \<bar>G\<bar> - 2 * spec_Z * sin (rad \<bar>G\<bar> / 2)"
definition spec_remainingRun :: "real \<Rightarrow> real \<Rightarrow> real" where
  "spec_remainingRun R G = max 0 (R - (spec_D * cos (rad G) + spec_Z * sin (rad \<bar>G\<bar>)))"
definition spec_runTime :: "real \<Rightarrow> real \<Rightarrow> real" where
  "spec_runTime R G =
     (spec_D + spec_Z * rad \<bar>G\<bar> + spec_remainingRun R G) / (TORPEDO_SPEED * KNOTS_TO_YPS)"
definition spec_H :: "real \<Rightarrow> real \<Rightarrow> real \<Rightarrow> real" where
  "spec_H S R G = S * KNOTS_TO_YPS * spec_runTime R G"
definition spec_I :: "real \<Rightarrow> real \<Rightarrow> real \<Rightarrow> real" where
  "spec_I A Br G = A + (G - Br)"
definition spec_errorXVII :: "real \<Rightarrow> real \<Rightarrow> real \<Rightarrow> real \<Rightarrow> real \<Rightarrow> real" where
  "spec_errorXVII R Br A S G =
     R * cos (rad (G - Br)) - spec_H S R G * cos (rad (spec_I A Br G)) - spec_Us G
       - spec_D * cos (rad G)"
definition spec_errorXVIII :: "real \<Rightarrow> real \<Rightarrow> real \<Rightarrow> real \<Rightarrow> real \<Rightarrow> real" where
  "spec_errorXVIII R Br A S G =
     R * sin (rad (G - Br)) - spec_H S R G * sin (rad (spec_I A Br G)) - spec_J G
       - spec_D * sin (rad G)"

subsection \<open>The divisions of the servo update\<close>

text \<open>
  The denominators of the divisions that lines 535-550 evaluate, in program order: the
  Newton quotient \<^verbatim>\<open>-errorXVIII / dErrXVIII_dG\<close> and \<^verbatim>\<open>errorMag / 50\<close> are inside the branch
  \<^verbatim>\<open>Math.abs(dErrXVIII_dG) > 0.1\<close>; the other branch divides by nothing.
\<close>

definition servo_denominators :: "real \<Rightarrow> real \<Rightarrow> real list" where
  "servo_denominators eXVIII dErrXVIII_dG =
     (if \<bar>dErrXVIII_dG\<bar> > 0.1
      then dErrXVIII_dG # (if \<bar>eXVIII\<bar> < 50 then [50] else [])
      else [])"

subsection \<open>normalizeAngle on JavaScript numbers\<close>

text \<open>
  A JavaScript number is a finite value, \<^verbatim>\<open>Infinity\<close>, \<^verbatim>\<open>-Infinity\<close> or \<^verbatim>\<open>NaN\<close>. Finite values
  are reals here (no rounding). A comparison with \<^verbatim>\<open>NaN\<close> is false; adding a finite number
  to an infinity gives the same infinity. On these values a loop of \<^verbatim>\<open>normalizeAngle\<close> may
  run forever, so each loop is a partial function: \<open>None\<close> is "does not return".
\<close>

datatype jsnum = Fin real | PosInf | NegInf | NaN

fun js_gt :: "jsnum \<Rightarrow> real \<Rightarrow> bool" where
  "js_gt (Fin x) c = (x > c)"
| "js_gt PosInf c = True"
| "js_gt NegInf c = False"
| "js_gt NaN c = False"

fun js_lt :: "jsnum \<Rightarrow> real \<Rightarrow> bool" where
  "js_lt (Fin x) c = (x < c)"
| "js_lt PosInf c = False"
| "js_lt NegInf c = True"
| "js_lt NaN c = False"

fun js_add :: "jsnum \<Rightarrow> real \<Rightarrow> jsnum" where
  "js_add (Fin x) c = Fin (x + c)"
| "js_add PosInf c = PosInf"
| "js_add NegInf c = NegInf"
| "js_add NaN c = NaN"

fun js_sub :: "jsnum \<Rightarrow> jsnum \<Rightarrow> jsnum" where
  "js_sub (Fin x) (Fin y) = Fin (x - y)"
| "js_sub NaN b = NaN"
| "js_sub a NaN = NaN"
| "js_sub PosInf PosInf = NaN"
| "js_sub NegInf NegInf = NaN"
| "js_sub PosInf b = PosInf"
| "js_sub NegInf b = NegInf"
| "js_sub (Fin x) PosInf = NegInf"
| "js_sub (Fin x) NegInf = PosInf"

partial_function (option) normalizeAngle_js_down :: "jsnum \<Rightarrow> jsnum option" where
  "normalizeAngle_js_down angle =
     (if js_gt angle 180 then normalizeAngle_js_down (js_add angle (- 360)) else Some angle)"

partial_function (option) normalizeAngle_js_up :: "jsnum \<Rightarrow> jsnum option" where
  "normalizeAngle_js_up angle =
     (if js_lt angle (- 180) then normalizeAngle_js_up (js_add angle 360) else Some angle)"

definition normalizeAngle_js :: "jsnum \<Rightarrow> jsnum option" where
  "normalizeAngle_js angle =
     (case normalizeAngle_js_down angle of None \<Rightarrow> None | Some a \<Rightarrow> normalizeAngle_js_up a)"

text \<open>
  Line 304 of \<^verbatim>\<open>initialize\<close>:
  \<^verbatim>\<open>normalizeAngle(this.inputs.targetBearing - this.inputs.ownCourse)\<close>, on the numbers that
  \<^verbatim>\<open>setInputs\<close> stored.
\<close>

definition initialize_relBearing_js :: "jsnum \<Rightarrow> jsnum \<Rightarrow> jsnum option" where
  "initialize_relBearing_js tb oc = normalizeAngle_js (js_sub tb oc)"

text \<open>
  The number of iterations the two loops of \<^verbatim>\<open>normalizeAngle\<close> make on a real angle.
\<close>

function normalizeAngle_down_iterations :: "real \<Rightarrow> nat" where
  "normalizeAngle_down_iterations angle =
     (if angle > 180 then Suc (normalizeAngle_down_iterations (angle - 360)) else 0)"
  by pat_completeness auto
termination
proof (relation "measure (\<lambda>a. nat \<lceil>a\<rceil>)")
  show "wf (measure (\<lambda>a::real. nat \<lceil>a\<rceil>))" by simp
next
  fix angle :: real
  assume a: "180 < angle"
  have "\<lceil>angle - 360\<rceil> = \<lceil>angle\<rceil> - 360"
    using ceiling_diff_of_int [of angle 360] by simp
  moreover have "0 < \<lceil>angle\<rceil>" using a by linarith
  ultimately show "(angle - 360, angle) \<in> measure (\<lambda>a. nat \<lceil>a\<rceil>)" by simp
qed

declare normalizeAngle_down_iterations.simps [simp del]

subsection \<open>The older engine\<close>

text \<open>
  The second engine of the file (lines 670-1243) is an older copy with a simplified solver.
  Its object has no servo velocity and no cam \<open>Us\<close>. Only its \<^verbatim>\<open>initialize\<close> (lines 929-948)
  is modelled.
\<close>

record tdc_legacy =
  l_inputs :: tdc_inputs
  l_state :: tdc_state
  l_diff7 :: differential
  l_diff33 :: differential
  l_resolver13 :: resolver
  l_resolver34 :: resolver
  l_int20 :: integrator
  l_int25 :: integrator
  l_int14 :: integrator
  l_int15 :: integrator
  l_int35 :: integrator
  l_int36 :: integrator
  l_diff28 :: differential
  l_diff29 :: differential
  l_gyroAngle :: real
  l_resolver2FA :: resolver
  l_camP :: cam
  l_camJ :: cam
  l_diff22FA :: differential
  l_outputs :: tdc_outputs

definition TDCMarkIII_legacy_new :: tdc_legacy where
  "TDCMarkIII_legacy_new =
     \<lparr>l_inputs = \<lparr>ownCourse = 0, ownSpeed = 0, targetBearing = 0, targetRange = 0,
                   targetCourse = 0, targetSpeed = 0\<rparr>,
      l_state = \<lparr>ownX = 0, ownY = 0, targetX = 0, targetY = 0, elapsedTime = 0\<rparr>,
      l_diff7 = Differential_new,
      l_diff33 = Differential_new,
      l_resolver13 = Resolver_new,
      l_resolver34 = Resolver_new,
      l_int20 = Integrator_new, l_int25 = Integrator_new, l_int14 = Integrator_new,
      l_int15 = Integrator_new, l_int35 = Integrator_new, l_int36 = Integrator_new,
      l_diff28 = Differential_new,
      l_diff29 = Differential_new,
      l_gyroAngle = 0,
      l_resolver2FA = Resolver_new,
      l_camP = Cam_new,
      l_camJ = Cam_new,
      l_diff22FA = Differential_new,
      l_outputs = \<lparr>out_gyroAngle = 0, relativeBearing = 0, targetAngle = 0, presentBearing = 0,
                    presentRange = 0, torpedoRun = 0, runTime = 0, trackAngle = 0,
                    isSolved = False, solverError = 999\<rparr>\<rparr>"

definition legacy_initialize :: "tdc_legacy \<Rightarrow> tdc_legacy" where
  "legacy_initialize s =
     (let bearingRad = targetBearing (l_inputs s) * pi / 180;
          st = (l_state s)\<lparr>ownX := 0, ownY := 0,
                  targetX := targetRange (l_inputs s) * sin bearingRad,
                  targetY := targetRange (l_inputs s) * cos bearingRad,
                  elapsedTime := 0\<rparr>
      in s\<lparr>l_state := st,
           l_int20 := Integrator_reset (l_int20 s),
           l_int25 := Integrator_reset (l_int25 s),
           l_int14 := Integrator_reset (l_int14 s),
           l_int15 := Integrator_reset (l_int15 s),
           l_int35 := Integrator_reset (l_int35 s),
           l_int36 := Integrator_reset (l_int36 s),
           l_gyroAngle := 0,
           l_outputs := (l_outputs s)\<lparr>isSolved := False\<rparr>\<rparr>)"

subsection \<open>Scenarios\<close>

text \<open>A scenario is the constructor, one \<^verbatim>\<open>setInputs\<close> and \<^verbatim>\<open>initialize\<close>.\<close>

definition scenario :: "(string \<rightharpoonup> real) \<Rightarrow> tdc" where
  "scenario obj = initialize (setInputs obj TDCMarkIII_new)"

text \<open>Target dead ahead, 2000 yards, nothing moves.\<close>

definition ahead_inputs :: "string \<rightharpoonup> real" where
  "ahead_inputs = [''targetRange'' \<mapsto> 2000]"

text \<open>Target dead astern, 2000 yards, nothing moves.\<close>

definition astern_inputs :: "string \<rightharpoonup> real" where
  "astern_inputs = [''targetBearing'' \<mapsto> 180, ''targetRange'' \<mapsto> 2000]"

text \<open>Own course 180, target due north at 1000 yards, nothing moves.\<close>

definition south_inputs :: "string \<rightharpoonup> real" where
  "south_inputs = [''ownCourse'' \<mapsto> 180, ''targetRange'' \<mapsto> 1000]"

text \<open>
  Target abeam to starboard (bearing 90), 2000 yards, nothing moves; and what holds of the
  engine at every step of that scenario: the place is that of the scenario, the gyro
  estimate is between 30 and 90, the servo velocity is not negative, the flag is not set.
\<close>

definition beam_inputs :: "string \<rightharpoonup> real" where
  "beam_inputs = [''targetBearing'' \<mapsto> 90, ''targetRange'' \<mapsto> 2000]"

definition beam_inv :: "tdc \<Rightarrow> bool" where
  "beam_inv s =
     (same_place s (scenario beam_inputs) \<and> 30 \<le> gyroAngle s \<and> gyroAngle s \<le> 90
      \<and> 0 \<le> servoVelocity s \<and> \<not> isSolved (outputs s))"

text \<open>
  Own course 300 (that is \<open>-60\<close>), target due east at 200 yards, nothing moves: the target
  bears 150 degrees to starboard. Mirroring a scenario left to right negates own course,
  target bearing and target course.
\<close>

definition quarter_inputs :: "string \<rightharpoonup> real" where
  "quarter_inputs = [''ownCourse'' \<mapsto> - 60, ''targetBearing'' \<mapsto> 90, ''targetRange'' \<mapsto> 200]"

definition mirror :: "(string \<rightharpoonup> real) \<Rightarrow> (string \<rightharpoonup> real)" where
  "mirror obj =
     (\<lambda>k. if k = ''ownCourse'' \<or> k = ''targetBearing'' \<or> k = ''targetCourse''
          then map_option uminus (obj k) else obj k)"

text \<open>The older engine with the target bearing set to 90.\<close>

definition legacy_east :: tdc_legacy where
  "legacy_east =
     TDCMarkIII_legacy_new\<lparr>l_inputs := (l_inputs TDCMarkIII_legacy_new)\<lparr>targetBearing := 90\<rparr>\<rparr>"

section \<open>Properties\<close>

subsection \<open>normalizeAngle on reals\<close>

lemma normalizeAngle_down_le: "normalizeAngle_down a \<le> 180"
  by (induction a rule: normalizeAngle_down.induct) (subst normalizeAngle_down.simps, simp)

lemma normalizeAngle_up_ge: "- 180 \<le> normalizeAngle_up a"
  by (induction a rule: normalizeAngle_up.induct) (subst normalizeAngle_up.simps, simp)

lemma normalizeAngle_up_le: "a \<le> 180 \<Longrightarrow> normalizeAngle_up a \<le> 180"
  by (induction a rule: normalizeAngle_up.induct) (subst normalizeAngle_up.simps, simp)

lemma normalizeAngle_bounds: "- 180 \<le> normalizeAngle a \<and> normalizeAngle a \<le> 180"
  by (simp add: normalizeAngle_def normalizeAngle_up_ge normalizeAngle_up_le
      normalizeAngle_down_le)

lemma normalizeAngle_id: "- 180 \<le> a \<Longrightarrow> a \<le> 180 \<Longrightarrow> normalizeAngle a = a"
  by (simp add: normalizeAngle_def normalizeAngle_down.simps normalizeAngle_up.simps)

lemma normalizeAngle_down_cong: "\<exists>k::int. normalizeAngle_down a = a + 360 * of_int k"
proof (induction a rule: normalizeAngle_down.induct)
  case (1 angle)
  show ?case
  proof (cases "angle > 180")
    case True
    from 1 [OF True] obtain k :: int
      where "normalizeAngle_down (angle - 360) = angle - 360 + 360 * of_int k" by blast
    then have "normalizeAngle_down angle = angle + 360 * of_int (k - 1)"
      using True by (subst normalizeAngle_down.simps) simp
    then show ?thesis by blast
  next
    case False
    then have "normalizeAngle_down angle = angle + 360 * of_int 0"
      by (subst normalizeAngle_down.simps) simp
    then show ?thesis by blast
  qed
qed

lemma normalizeAngle_up_cong: "\<exists>k::int. normalizeAngle_up a = a + 360 * of_int k"
proof (induction a rule: normalizeAngle_up.induct)
  case (1 angle)
  show ?case
  proof (cases "angle < - 180")
    case True
    from 1 [OF True] obtain k :: int
      where "normalizeAngle_up (angle + 360) = angle + 360 + 360 * of_int k" by blast
    then have "normalizeAngle_up angle = angle + 360 * of_int (k + 1)"
      using True by (subst normalizeAngle_up.simps) simp
    then show ?thesis by blast
  next
    case False
    then have "normalizeAngle_up angle = angle + 360 * of_int 0"
      by (subst normalizeAngle_up.simps) simp
    then show ?thesis by blast
  qed
qed

lemma normalizeAngle_cong: "\<exists>k::int. normalizeAngle a = a + 360 * of_int k"
proof -
  obtain k :: int where k: "normalizeAngle_down a = a + 360 * of_int k"
    using normalizeAngle_down_cong by blast
  obtain j :: int
    where j: "normalizeAngle_up (normalizeAngle_down a) = normalizeAngle_down a + 360 * of_int j"
    using normalizeAngle_up_cong by blast
  have "normalizeAngle a = normalizeAngle_down a + 360 * of_int j"
    by (simp add: normalizeAngle_def j)
  then have "normalizeAngle a = a + 360 * of_int (k + j)"
    by (simp add: k)
  then show ?thesis by blast
qed

subsection \<open>What each method changes\<close>

lemma setInputs_frame_fields:
  "state (setInputs obj s) = state s"
  "gyroAngle (setInputs obj s) = gyroAngle s"
  "servoVelocity (setInputs obj s) = servoVelocity s"
  "outputs (setInputs obj s) = outputs s"
  by (simp_all add: setInputs_def)

lemma initialize_fields:
  "inputs (initialize s) = inputs s"
  "gyroAngle (initialize s) =
     max (- 90) (min 90 (normalizeAngle (targetBearing (inputs s) - ownCourse (inputs s)) * 0.8))"
  "servoVelocity (initialize s) = 0"
  "outputs (initialize s) = (outputs s)\<lparr>isSolved := False\<rparr>"
  "ownX (state (initialize s)) = 0"
  "ownY (state (initialize s)) = 0"
  "targetX (state (initialize s)) =
     targetRange (inputs s) * sin (targetBearing (inputs s) * pi / 180)"
  "targetY (state (initialize s)) =
     targetRange (inputs s) * cos (targetBearing (inputs s) * pi / 180)"
  by (simp_all add: initialize_def Let_def)

lemma updatePositions_frame:
  "inputs (updatePositions dt s) = inputs s"
  "outputs (updatePositions dt s) = outputs s"
  "gyroAngle (updatePositions dt s) = gyroAngle s"
  "servoVelocity (updatePositions dt s) = servoVelocity s"
  "diff33 (updatePositions dt s) = diff33 s"
  by (simp_all add: updatePositions_def Let_def)

lemma updatePositions_static:
  "static s \<Longrightarrow> ownX (state (updatePositions dt s)) = ownX (state s)"
  "static s \<Longrightarrow> ownY (state (updatePositions dt s)) = ownY (state s)"
  "static s \<Longrightarrow> targetX (state (updatePositions dt s)) = targetX (state s)"
  "static s \<Longrightarrow> targetY (state (updatePositions dt s)) = targetY (state s)"
  by (simp_all add: static_def updatePositions_def Let_def)

lemma calculatePresentGeometry_frame:
  "inputs (calculatePresentGeometry s) = inputs s"
  "state (calculatePresentGeometry s) = state s"
  "gyroAngle (calculatePresentGeometry s) = gyroAngle s"
  "servoVelocity (calculatePresentGeometry s) = servoVelocity s"
  "diff33 (calculatePresentGeometry s) = diff33 s"
  "isSolved (outputs (calculatePresentGeometry s)) = isSolved (outputs s)"
  "out_gyroAngle (outputs (calculatePresentGeometry s)) = out_gyroAngle (outputs s)"
  by (simp_all add: calculatePresentGeometry_def Let_def)

lemma calculatePresentGeometry_outputs:
  "presentRange (outputs (calculatePresentGeometry s)) =
     sqrt ((targetX (state s) - ownX (state s))\<^sup>2 + (targetY (state s) - ownY (state s))\<^sup>2)"
  "presentBearing (outputs (calculatePresentGeometry s)) =
     bearingOf (targetX (state s) - ownX (state s)) (targetY (state s) - ownY (state s))"
  by (simp_all add: calculatePresentGeometry_def Let_def bearingOf_def power2_eq_square)

lemma runPositionKeeper_frame:
  "inputs (runPositionKeeper dt s) = inputs s"
  "state (runPositionKeeper dt s) = state s"
  "gyroAngle (runPositionKeeper dt s) = gyroAngle s"
  "servoVelocity (runPositionKeeper dt s) = servoVelocity s"
  "isSolved (outputs (runPositionKeeper dt s)) = isSolved (outputs s)"
  "out_gyroAngle (outputs (runPositionKeeper dt s)) = out_gyroAngle (outputs s)"
  "presentRange (outputs (runPositionKeeper dt s)) = presentRange (outputs s)"
  "presentBearing (outputs (runPositionKeeper dt s)) = presentBearing (outputs s)"
  by (simp_all add: runPositionKeeper_def Let_def)

lemma runPositionKeeper_outputs:
  "relativeBearing (outputs (runPositionKeeper dt s)) =
     normalizeAngle (presentBearing (outputs s) - ownCourse (inputs s))"
  "targetAngle (outputs (runPositionKeeper dt s)) =
     normalizeAngle (presentBearing (outputs s) + 180 - targetCourse (inputs s))"
  "diff_rotation (diff33 (runPositionKeeper dt s)) =
     diff_rotation (diff33 s) + (presentBearing (outputs s) + 180 + targetCourse (inputs s)) / 2"
  by (simp_all add: runPositionKeeper_def Let_def Differential_update_def)

lemma beforeSolver_frame:
  "inputs (beforeSolver dt s) = inputs s"
  "gyroAngle (beforeSolver dt s) = gyroAngle s"
  "servoVelocity (beforeSolver dt s) = servoVelocity s"
  "isSolved (outputs (beforeSolver dt s)) = isSolved (outputs s)"
  "out_gyroAngle (outputs (beforeSolver dt s)) = out_gyroAngle (outputs s)"
  "state (beforeSolver dt s) = state (updatePositions dt s)"
  by (simp_all add: beforeSolver_def runPositionKeeper_frame calculatePresentGeometry_frame
      updatePositions_frame)

lemma beforeSolver_geometry:
  "presentRange (outputs (beforeSolver dt s)) =
     sqrt ((targetX (state (updatePositions dt s)) - ownX (state (updatePositions dt s)))\<^sup>2
         + (targetY (state (updatePositions dt s)) - ownY (state (updatePositions dt s)))\<^sup>2)"
  "presentBearing (outputs (beforeSolver dt s)) =
     bearingOf (targetX (state (updatePositions dt s)) - ownX (state (updatePositions dt s)))
       (targetY (state (updatePositions dt s)) - ownY (state (updatePositions dt s)))"
  "relativeBearing (outputs (beforeSolver dt s)) =
     normalizeAngle (presentBearing (outputs (beforeSolver dt s)) - ownCourse (inputs s))"
  "targetAngle (outputs (beforeSolver dt s)) =
     normalizeAngle (presentBearing (outputs (beforeSolver dt s)) + 180 - targetCourse (inputs s))"
  by (simp_all add: beforeSolver_def runPositionKeeper_frame runPositionKeeper_outputs
      calculatePresentGeometry_frame calculatePresentGeometry_outputs updatePositions_frame)

text \<open>\<open>runAngleSolver\<close> through the observations: both sides unfold to the same term.\<close>

lemma runAngleSolver_char:
  "runAngleSolver dt s =
     s\<lparr>resolver2FA := Resolver_update (resolver2FA s) (gyroAngle s - relativeBearing (outputs s)),
       camP := Cam_update camP_profile (camP s) (gyroAngle s),
       camJ := Cam_update camJ_profile (camJ s) (gyroAngle s),
       camUs := Cam_update camUs_profile (camUs s) (gyroAngle s),
       gyroAngle := solver_gyro dt s,
       servoVelocity := solver_velocity s,
       diff22FA := Differential_update Add (diff22FA s) (solver_gyro dt s) 0,
       outputs := (outputs s)\<lparr>
         solverError :=
           sqrt (errorXVII (computeError s (gyroAngle s)) * errorXVII (computeError s (gyroAngle s))
                 + solver_residual s * solver_residual s),
         isSolved := solver_solved s,
         out_gyroAngle := solver_gyro dt s,
         trackAngle :=
           (if \<bar>normalizeAngle (ownCourse (inputs s) + solver_gyro dt s
                  - targetCourse (inputs s) + 180)\<bar> > 180
            then 360 - \<bar>normalizeAngle (ownCourse (inputs s) + solver_gyro dt s
                  - targetCourse (inputs s) + 180)\<bar>
            else \<bar>normalizeAngle (ownCourse (inputs s) + solver_gyro dt s
                  - targetCourse (inputs s) + 180)\<bar>),
         torpedoRun := presentRange (outputs s)
            / max 0.5 (cos ((solver_gyro dt s - relativeBearing (outputs s)) * pi / 180)),
         runTime := presentRange (outputs s)
            / max 0.5 (cos ((solver_gyro dt s - relativeBearing (outputs s)) * pi / 180))
            / (TORPEDO_SPEED * KNOTS_TO_YPS)\<rparr>\<rparr>"
  unfolding runAngleSolver_def solver_gyro_def solver_velocity_def solver_derivative_def
    solver_servoRuns_def solver_solved_def solver_residual_def Let_def
  by (rule refl)

lemma runAngleSolver_fields:
  "inputs (runAngleSolver dt s) = inputs s"
  "state (runAngleSolver dt s) = state s"
  "gyroAngle (runAngleSolver dt s) = solver_gyro dt s"
  "servoVelocity (runAngleSolver dt s) = solver_velocity s"
  "isSolved (outputs (runAngleSolver dt s)) = solver_solved s"
  "out_gyroAngle (outputs (runAngleSolver dt s)) = solver_gyro dt s"
  "relativeBearing (outputs (runAngleSolver dt s)) = relativeBearing (outputs s)"
  "targetAngle (outputs (runAngleSolver dt s)) = targetAngle (outputs s)"
  "presentRange (outputs (runAngleSolver dt s)) = presentRange (outputs s)"
  "presentBearing (outputs (runAngleSolver dt s)) = presentBearing (outputs s)"
  "diff33 (runAngleSolver dt s) = diff33 s"
  by (simp_all add: runAngleSolver_char)

lemma step_beforeSolver: "step dt s = runAngleSolver dt (beforeSolver dt s)"
  by (simp add: step_def beforeSolver_def)

lemma solver_gyro_bounds:
  "- 90 \<le> gyroAngle s \<Longrightarrow> gyroAngle s \<le> 90 \<Longrightarrow>
     - 90 \<le> solver_gyro dt s \<and> solver_gyro dt s \<le> 90"
  by (simp add: solver_gyro_def)

subsection \<open>The governing relations\<close>

lemma straight_run: "getTotalStraightRun = 125"
  by (simp add: getTotalStraightRun_def TUBE_BASE_LINE_def REACH_def)

lemma abs_rad: "\<bar>G * pi / 180\<bar> = \<bar>G\<bar> * pi / 180"
  by (simp add: abs_mult)

text \<open>
  Claim C1. At a trial gyro angle \<open>G\<close>, the residuals that \<^verbatim>\<open>computeError\<close> returns are the
  governing relations of the specification, for the range, relative bearing and target
  angle the Position Keeper published and the target speed of the inputs:
  Error XVII \<open>= R cos(G - Br) - H cos I - Us - D cos G\<close> and
  Error XVIII \<open>= R sin(G - Br) - H sin I - J - D sin G\<close>, with \<open>D = 125\<close>, \<open>Z = 130\<close>,
  \<open>H\<close> the target speed times the run time \<open>(D + Z |G| + remaining run) / torpedo speed\<close>,
  \<open>I = A + (G - Br)\<close>, \<open>J = Z (1 - cos G)\<close> and \<open>Us = Z |G| - 2 Z sin(|G| / 2)\<close>; the terms
  \<open>H\<close>, \<open>I\<close>, \<open>J\<close> and \<open>Us\<close> it returns are those of the specification as well.
\<close>

theorem computeError_governing:
  "errorXVII (computeError s G) =
     spec_errorXVII (presentRange (outputs s)) (relativeBearing (outputs s))
       (targetAngle (outputs s)) (targetSpeed (inputs s)) G
   \<and> errorXVIII (computeError s G) =
     spec_errorXVIII (presentRange (outputs s)) (relativeBearing (outputs s))
       (targetAngle (outputs s)) (targetSpeed (inputs s)) G
   \<and> err_H (computeError s G) = spec_H (targetSpeed (inputs s)) (presentRange (outputs s)) G
   \<and> err_I (computeError s G) = spec_I (targetAngle (outputs s)) (relativeBearing (outputs s)) G
   \<and> err_J (computeError s G) = spec_J G
   \<and> err_Us (computeError s G) = spec_Us G"
  unfolding computeError_def Let_def spec_errorXVII_def spec_errorXVIII_def spec_H_def
      spec_runTime_def spec_remainingRun_def spec_Us_def spec_J_def spec_I_def rad_def
      spec_D_def spec_Z_def straight_run TURN_RADIUS_def abs_rad
  by simp

subsection \<open>The gyro angle stays clamped\<close>

lemma gyro_inv_new: "gyro_inv TDCMarkIII_new"
  by (simp add: gyro_inv_def TDCMarkIII_new_def)

lemma gyro_inv_exec: "gyro_inv s \<Longrightarrow> gyro_inv (exec c s)"
proof (cases c)
  case (SetInputs obj)
  assume "gyro_inv s"
  then show ?thesis using SetInputs by (simp add: gyro_inv_def setInputs_frame_fields)
next
  case Initialize
  assume "gyro_inv s"
  then show ?thesis using Initialize by (simp add: gyro_inv_def initialize_fields)
next
  case (Step dt)
  assume inv: "gyro_inv s"
  have "- 90 \<le> gyroAngle (beforeSolver dt s)" "gyroAngle (beforeSolver dt s) \<le> 90"
    using inv by (simp_all add: gyro_inv_def beforeSolver_frame)
  then have "- 90 \<le> solver_gyro dt (beforeSolver dt s) \<and> solver_gyro dt (beforeSolver dt s) \<le> 90"
    by (rule solver_gyro_bounds)
  then show ?thesis
    using Step by (simp add: gyro_inv_def step_beforeSolver runAngleSolver_fields)
qed

lemma gyro_inv_run: "gyro_inv s \<Longrightarrow> gyro_inv (run cs s)"
  by (induction cs arbitrary: s) (simp_all add: gyro_inv_exec)

lemma gyro_inv_steps: "gyro_inv s \<Longrightarrow> gyro_inv (steps dts s)"
proof (induction dts arbitrary: s)
  case Nil
  then show ?case by simp
next
  case (Cons dt dts)
  from Cons.prems have "gyro_inv (exec (Step dt) s)" by (rule gyro_inv_exec)
  then show ?case using Cons.IH by simp
qed


subsection \<open>The guard of the Newton step\<close>

text \<open>
  Claim C7. In the servo update the Newton quotient \<open>- ErrorXVIII / (dErrorXVIII/dG)\<close> is
  formed only when the finite-difference derivative has magnitude above \<open>0.1\<close>; then the
  target velocity is the sign of the quotient times the servo rate and the speed multiplier
  (scaled by \<open>|ErrorXVIII| / 50\<close> below 50 yards). At or below \<open>0.1\<close> the target velocity is
  \<open>- sign(ErrorXVIII) * 0.3 * servo rate * speed multiplier\<close>. Every denominator of the update
  has magnitude above \<open>0.1\<close>.
\<close>

theorem servo_guard:
  "(\<bar>d\<bar> \<le> 0.1 \<longrightarrow> servoTargetVelocity e d m = - sgn e * 0.3 * gyroServoRate * m)
   \<and> (\<bar>d\<bar> > 0.1 \<longrightarrow> servoTargetVelocity e d m =
         sgn (- e / d) * gyroServoRate * m * (if \<bar>e\<bar> < 50 then \<bar>e\<bar> / 50 else 1))
   \<and> (\<forall>x \<in> set (servo_denominators e d). \<bar>x\<bar> > 0.1)"
  by (auto simp add: servoTargetVelocity_def servo_denominators_def Let_def)

theorem servo_guard_witness:
  "\<bar>1 / 20 :: real\<bar> \<le> 0.1 \<and> servoTargetVelocity 3 (1 / 20) 1 = - 2.4
   \<and> \<bar>2 :: real\<bar> > 0.1 \<and> servoTargetVelocity 100 2 1 = - 8
   \<and> servo_denominators 100 2 = [2] \<and> \<bar>2 :: real\<bar> > 0.1"
  using servo_guard [of "1 / 20" 3 1] servo_guard [of 2 100 1]
  by (simp add: gyroServoRate_def servo_denominators_def)

subsection \<open>setInputs\<close>

text \<open>
  Claim C10. \<^verbatim>\<open>setInputs(obj)\<close> gives each of the six inputs the value \<open>obj\<close> has for it and
  leaves an input that \<open>obj\<close> does not have as it was; nothing of the engine but the input
  record changes (positions, integrators, solver state and outputs are those of before).
\<close>

theorem setInputs_frame:
  "ownCourse (inputs (setInputs obj s)) =
      (case obj ''ownCourse'' of Some v \<Rightarrow> v | None \<Rightarrow> ownCourse (inputs s))
   \<and> ownSpeed (inputs (setInputs obj s)) =
      (case obj ''ownSpeed'' of Some v \<Rightarrow> v | None \<Rightarrow> ownSpeed (inputs s))
   \<and> targetBearing (inputs (setInputs obj s)) =
      (case obj ''targetBearing'' of Some v \<Rightarrow> v | None \<Rightarrow> targetBearing (inputs s))
   \<and> targetRange (inputs (setInputs obj s)) =
      (case obj ''targetRange'' of Some v \<Rightarrow> v | None \<Rightarrow> targetRange (inputs s))
   \<and> targetCourse (inputs (setInputs obj s)) =
      (case obj ''targetCourse'' of Some v \<Rightarrow> v | None \<Rightarrow> targetCourse (inputs s))
   \<and> targetSpeed (inputs (setInputs obj s)) =
      (case obj ''targetSpeed'' of Some v \<Rightarrow> v | None \<Rightarrow> targetSpeed (inputs s))
   \<and> setInputs obj s = s\<lparr>inputs := inputs (setInputs obj s)\<rparr>"
  by (simp add: setInputs_def assignField_def)

subsection \<open>Termination of normalizeAngle\<close>

lemma js_down_fin: "normalizeAngle_js_down (Fin a) = Some (Fin (normalizeAngle_down a))"
proof (induction a rule: normalizeAngle_down.induct)
  case (1 angle)
  show ?case
  proof (cases "angle > 180")
    case True
    then show ?thesis
      using 1 [OF True]
      by (subst normalizeAngle_js_down.simps, subst normalizeAngle_down.simps) simp
  next
    case False
    then show ?thesis
      by (subst normalizeAngle_js_down.simps, subst normalizeAngle_down.simps) simp
  qed
qed

lemma js_up_fin: "normalizeAngle_js_up (Fin a) = Some (Fin (normalizeAngle_up a))"
proof (induction a rule: normalizeAngle_up.induct)
  case (1 angle)
  show ?case
  proof (cases "angle < - 180")
    case True
    then show ?thesis
      using 1 [OF True]
      by (subst normalizeAngle_js_up.simps, subst normalizeAngle_up.simps) simp
  next
    case False
    then show ?thesis
      by (subst normalizeAngle_js_up.simps, subst normalizeAngle_up.simps) simp
  qed
qed

lemma js_down_PosInf_aux:
  assumes "normalizeAngle_js_down x = Some y"
  shows "x \<noteq> PosInf"
proof (rule normalizeAngle_js_down.raw_induct [where P = "\<lambda>x y. x \<noteq> PosInf" and angle = x and y = y])
  show "normalizeAngle_js_down x = Some y" by fact
next
  fix f :: "jsnum \<Rightarrow> jsnum option" and angle y'
  assume IH: "\<And>x y. f x = Some y \<Longrightarrow> x \<noteq> PosInf"
  assume eq: "(if js_gt angle 180 then f (js_add angle (- 360)) else Some angle) = Some y'"
  show "angle \<noteq> PosInf"
  proof
    assume "angle = PosInf"
    with eq have "f PosInf = Some y'" by simp
    from IH [OF this] show False by simp
  qed
qed

lemma js_down_PosInf: "normalizeAngle_js_down PosInf = None"
proof (cases "normalizeAngle_js_down PosInf")
  case None
  then show ?thesis .
next
  case (Some y)
  then show ?thesis using js_down_PosInf_aux by blast
qed

text \<open>The first loop makes at least \<open>(a - 180) / 360\<close> iterations: no bound fits every angle.\<close>

lemma normalizeAngle_down_iterations_ge:
  "a - 180 \<le> 360 * real (normalizeAngle_down_iterations a)"
proof (induction a rule: normalizeAngle_down_iterations.induct)
  case (1 angle)
  show ?case
  proof (cases "angle > 180")
    case True
    from 1 [OF True] show ?thesis
      using True by (subst normalizeAngle_down_iterations.simps) simp
  next
    case False
    then show ?thesis by (subst normalizeAngle_down_iterations.simps) simp
  qed
qed

lemma normalizeAngle_iterations_unbounded:
  "\<exists>a. n < normalizeAngle_down_iterations a"
proof -
  have "360 * real n + 360 \<le> 360 * real (normalizeAngle_down_iterations (360 * real n + 540))"
    using normalizeAngle_down_iterations_ge [of "360 * real n + 540"] by simp
  then have "real n < real (normalizeAngle_down_iterations (360 * real n + 540))" by simp
  then show ?thesis by auto
qed



subsection \<open>Static scenarios\<close>

lemma computeError_cong:
  "presentRange (outputs s) = presentRange (outputs t) \<Longrightarrow>
   relativeBearing (outputs s) = relativeBearing (outputs t) \<Longrightarrow>
   targetAngle (outputs s) = targetAngle (outputs t) \<Longrightarrow>
   targetSpeed (inputs s) = targetSpeed (inputs t) \<Longrightarrow>
   computeError s G = computeError t G"
  by (simp only: computeError_def)

lemma static_same_place:
  assumes "static s" "same_place s t"
  shows "static t"
    and "presentRange (outputs (beforeSolver dt s)) = presentRange (outputs (beforeSolver dt' t))"
    and "relativeBearing (outputs (beforeSolver dt s)) = relativeBearing (outputs (beforeSolver dt' t))"
    and "targetAngle (outputs (beforeSolver dt s)) = targetAngle (outputs (beforeSolver dt' t))"
proof -
  show t: "static t" using assms by (simp add: static_def same_place_def)
  have i: "inputs s = inputs t" using assms by (simp add: same_place_def)
  show "presentRange (outputs (beforeSolver dt s)) = presentRange (outputs (beforeSolver dt' t))"
    using assms t by (simp add: beforeSolver_geometry(1) updatePositions_static same_place_def)
  have B: "presentBearing (outputs (beforeSolver dt s)) = presentBearing (outputs (beforeSolver dt' t))"
    using assms t by (simp add: beforeSolver_geometry(2) updatePositions_static same_place_def)
  show "relativeBearing (outputs (beforeSolver dt s)) = relativeBearing (outputs (beforeSolver dt' t))"
    by (simp add: beforeSolver_geometry(3) B i)
  show "targetAngle (outputs (beforeSolver dt s)) = targetAngle (outputs (beforeSolver dt' t))"
    by (simp add: beforeSolver_geometry(4) B i)
qed

lemma static_same_scene:
  assumes "static s" "same_scene s t"
  shows "stepResidual dt s = stepResidual dt' t" "stepRange dt s = stepRange dt' t"
proof -
  have p: "same_place s t" and g0: "gyroAngle s = gyroAngle t"
    using assms by (simp_all add: same_scene_def)
  note G = static_same_place [OF assms(1) p]
  have i: "inputs s = inputs t" using p by (simp add: same_place_def)
  have g: "gyroAngle (beforeSolver dt s) = gyroAngle (beforeSolver dt' t)"
    using g0 by (simp add: beforeSolver_frame)
  have "computeError (beforeSolver dt s) (gyroAngle (beforeSolver dt s)) =
        computeError (beforeSolver dt' t) (gyroAngle (beforeSolver dt s))"
    by (rule computeError_cong) (simp_all add: G(2) G(3) G(4) beforeSolver_frame i)
  then show "stepResidual dt s = stepResidual dt' t"
    by (simp add: stepResidual_def solver_residual_def g)
  show "stepRange dt s = stepRange dt' t" by (simp add: stepRange_def G(2))
qed

lemma step_same_place: "static s \<Longrightarrow> same_place (step dt s) s"
  by (simp add: same_place_def step_beforeSolver runAngleSolver_fields beforeSolver_frame
      updatePositions_static)

lemma steps_same_place: "static s \<Longrightarrow> same_place (steps dts s) s"
proof (induction dts arbitrary: s)
  case Nil
  then show ?case by (simp add: same_place_def)
next
  case (Cons dt dts)
  have p: "same_place (step dt s) s" using Cons.prems by (rule step_same_place)
  then have "static (step dt s)" using Cons.prems by (simp add: static_def same_place_def)
  from Cons.IH [OF this] p show ?case by (simp add: same_place_def)
qed

text \<open>
  One step at a residual within half the solve threshold: the flag is set (or stays set),
  the servo branch is skipped and the gyro angle stays.
\<close>

lemma step_locks:
  assumes st: "static s"
    and e: "\<bar>stepResidual dt s\<bar> \<le> solveThreshold (stepRange dt s) * 0.5"
  shows "isSolved (outputs (step dt s))" "same_scene (step dt s) s"
    "out_gyroAngle (outputs (step dt s)) = gyroAngle s"
proof -
  let ?b = "beforeSolver dt s"
  have thr: "10 \<le> solveThreshold (stepRange dt s)" by (simp add: solveThreshold_def)
  have lt: "\<bar>stepResidual dt s\<bar> < solveThreshold (stepRange dt s)" using e thr by simp
  have le: "\<not> \<bar>stepResidual dt s\<bar> > unsolvThreshold (stepRange dt s)"
    using e thr by (simp add: unsolvThreshold_def)
  have solved: "solver_solved ?b"
    using lt le
    by (simp add: solver_solved_def updateSolved_def Let_def stepResidual_def stepRange_def)
  then show "isSolved (outputs (step dt s))"
    by (simp add: step_beforeSolver runAngleSolver_fields)
  have "\<not> solver_servoRuns ?b"
    using solved e by (simp add: solver_servoRuns_def stepResidual_def stepRange_def)
  then have g: "solver_gyro dt ?b = gyroAngle s"
    by (simp add: solver_gyro_def beforeSolver_frame)
  then show "out_gyroAngle (outputs (step dt s)) = gyroAngle s"
    by (simp add: step_beforeSolver runAngleSolver_fields)
  show "same_scene (step dt s) s"
    using step_same_place [OF st] g
    by (simp add: same_scene_def step_beforeSolver runAngleSolver_fields)
qed

lemma steps_lock:
  assumes "static s" "same_scene s t"
    and "\<bar>stepResidual dt0 t\<bar> \<le> solveThreshold (stepRange dt0 t) * 0.5"
    and "dts \<noteq> []"
  shows "isSolved (outputs (steps dts s)) \<and> out_gyroAngle (outputs (steps dts s)) = gyroAngle t
         \<and> gyroAngle (steps dts s) = gyroAngle t"
  using assms
proof (induction dts arbitrary: s)
  case Nil
  then show ?case by simp
next
  case (Cons dt dts)
  have e: "\<bar>stepResidual dt s\<bar> \<le> solveThreshold (stepRange dt s) * 0.5"
    using Cons.prems(3) static_same_scene [OF Cons.prems(1) Cons.prems(2), of dt dt0] by simp
  note L = step_locks [OF Cons.prems(1) e]
  have sc: "same_scene (step dt s) t"
    using L(2) Cons.prems(2) by (simp add: same_scene_def same_place_def)
  have st: "static (step dt s)"
    using Cons.prems(1) L(2) by (simp add: static_def same_scene_def same_place_def)
  show ?case
  proof (cases dts)
    case Nil
    then show ?thesis using L sc by (simp add: same_scene_def)
  next
    case (Cons a list)
    then have "dts \<noteq> []" by simp
    from Cons.IH [OF st sc Cons.prems(3) this] show ?thesis by simp
  qed
qed

subsection \<open>Evaluation at the scenarios\<close>

lemma atan2_zero_left: "0 < x \<Longrightarrow> atan2 0 x = 0" "x < 0 \<Longrightarrow> atan2 0 x = pi" "atan2 0 0 = 0"
  by (simp_all add: atan2_def)

lemma bearingOf_north: "0 < y \<Longrightarrow> bearingOf 0 y = 0"
  and bearingOf_south: "y < 0 \<Longrightarrow> bearingOf 0 y = 180"
  and bearingOf_origin: "bearingOf 0 0 = 0"
  by (simp_all add: bearingOf_def atan2_zero_left Let_def)

lemma new_fields:
  "static TDCMarkIII_new"
  "inputs TDCMarkIII_new = \<lparr>ownCourse = 0, ownSpeed = 0, targetBearing = 0, targetRange = 0,
                 targetCourse = 0, targetSpeed = 0\<rparr>"
  "ownX (state TDCMarkIII_new) = 0" "ownY (state TDCMarkIII_new) = 0"
  "targetX (state TDCMarkIII_new) = 0" "targetY (state TDCMarkIII_new) = 0"
  "gyroAngle TDCMarkIII_new = 0"
  "diff_rotation (diff33 TDCMarkIII_new) = 0"
  "\<not> isSolved (outputs TDCMarkIII_new)"
  by (simp_all add: TDCMarkIII_new_def static_def Differential_new_def)

lemma scenario_fields:
  "inputs (scenario obj) = inputs (setInputs obj TDCMarkIII_new)"
  "ownX (state (scenario obj)) = 0"
  "ownY (state (scenario obj)) = 0"
  "targetX (state (scenario obj)) =
     targetRange (inputs (setInputs obj TDCMarkIII_new))
       * sin (targetBearing (inputs (setInputs obj TDCMarkIII_new)) * pi / 180)"
  "targetY (state (scenario obj)) =
     targetRange (inputs (setInputs obj TDCMarkIII_new))
       * cos (targetBearing (inputs (setInputs obj TDCMarkIII_new)) * pi / 180)"
  "gyroAngle (scenario obj) =
     max (- 90) (min 90 (normalizeAngle (targetBearing (inputs (setInputs obj TDCMarkIII_new))
        - ownCourse (inputs (setInputs obj TDCMarkIII_new))) * 0.8))"
  by (simp_all add: scenario_def initialize_fields)

lemma scenario_run: "scenario obj = run [SetInputs obj, Initialize] TDCMarkIII_new"
  by (simp add: scenario_def)

lemma residual_static:
  "static s \<Longrightarrow>
   stepResidual dt s =
     presentRange (outputs (beforeSolver dt s))
        * sin ((gyroAngle s - relativeBearing (outputs (beforeSolver dt s))) * pi / 180)
      - TURN_RADIUS * (1 - cos (gyroAngle s * pi / 180))
      - getTotalStraightRun * sin (gyroAngle s * pi / 180)"
  by (simp add: stepResidual_def solver_residual_def computeError_def Let_def beforeSolver_frame
      static_def)

lemma new_residual: "stepResidual dt TDCMarkIII_new = 0" "stepRange dt TDCMarkIII_new = 0"
  by (simp_all add: residual_static new_fields stepRange_def beforeSolver_geometry
      updatePositions_static bearingOf_origin normalizeAngle_id)

lemma ahead_fields:
  "static (scenario ahead_inputs)"
  "ownCourse (inputs (scenario ahead_inputs)) = 0"
  "targetCourse (inputs (scenario ahead_inputs)) = 0"
  "targetSpeed (inputs (scenario ahead_inputs)) = 0"
  "targetX (state (scenario ahead_inputs)) - ownX (state (scenario ahead_inputs)) = 0"
  "targetY (state (scenario ahead_inputs)) - ownY (state (scenario ahead_inputs)) = 2000"
  "gyroAngle (scenario ahead_inputs) = 0"
  by (simp_all add: scenario_fields static_def setInputs_def assignField_def ahead_inputs_def
      new_fields normalizeAngle_id)

lemma ahead_residual:
  "stepResidual dt (scenario ahead_inputs) = 0" "stepRange dt (scenario ahead_inputs) = 2000"
  by (simp_all add: residual_static ahead_fields stepRange_def beforeSolver_geometry
      updatePositions_static bearingOf_north normalizeAngle_id)

lemma computeIdealGyro_static:
  "static s \<Longrightarrow>
   computeIdealGyro s =
     normalizeAngle (bearingOf (targetX (state s) - ownX (state s))
                               (targetY (state s) - ownY (state s)) - ownCourse (inputs s))"
  by (simp add: computeIdealGyro_def Let_def static_def bearingOf_def)

lemma computeIdealGyro_same_place:
  assumes "static s" "same_place s t"
  shows "computeIdealGyro s = computeIdealGyro t"
proof -
  have "static t" using assms by (simp add: static_def same_place_def)
  then show ?thesis
    using assms by (simp add: computeIdealGyro_static same_place_def)
qed

lemma astern_fields:
  "static (scenario astern_inputs)"
  "ownCourse (inputs (scenario astern_inputs)) = 0"
  "targetX (state (scenario astern_inputs)) - ownX (state (scenario astern_inputs)) = 0"
  "targetY (state (scenario astern_inputs)) - ownY (state (scenario astern_inputs)) = - 2000"
  by (simp_all add: scenario_fields static_def setInputs_def assignField_def astern_inputs_def
      new_fields)

lemma south_fields:
  "static (scenario south_inputs)"
  "ownCourse (inputs (scenario south_inputs)) = 180"
  "targetX (state (scenario south_inputs)) - ownX (state (scenario south_inputs)) = 0"
  "targetY (state (scenario south_inputs)) - ownY (state (scenario south_inputs)) = 1000"
  by (simp_all add: scenario_fields static_def setInputs_def assignField_def south_inputs_def
      new_fields)

subsection \<open>Mirror symmetry\<close>

lemma errorXVIII_static:
  "targetSpeed (inputs s) = 0 \<Longrightarrow>
   errorXVIII (computeError s x) =
     presentRange (outputs s) * sin ((x - relativeBearing (outputs s)) * pi / 180)
      - 130 * (1 - cos (x * pi / 180)) - 125 * sin (x * pi / 180)"
  by (simp add: computeError_def Let_def straight_run TURN_RADIUS_def)

text \<open>
  Under a mirror image of the geometry every term of Error XVIII changes its sign but the
  transfer \<open>J = Z (1 - cos G)\<close>, which is even in \<open>G\<close>.
\<close>

lemma errorXVIII_mirror:
  assumes "presentRange (outputs t) = presentRange (outputs s)"
    and "relativeBearing (outputs t) = - relativeBearing (outputs s)"
    and "targetAngle (outputs t) = - targetAngle (outputs s)"
    and "targetSpeed (inputs t) = targetSpeed (inputs s)"
  shows "errorXVIII (computeError t (- G)) =
           - errorXVIII (computeError s G) - 2 * err_J (computeError s G)"
proof -
  have a: "(- G - - relativeBearing (outputs s)) * pi / 180
             = - ((G - relativeBearing (outputs s)) * pi / 180)"
    by (simp add: field_simps)
  have b: "(- targetAngle (outputs s) + (- G - - relativeBearing (outputs s))) * pi / 180
             = - ((targetAngle (outputs s) + (G - relativeBearing (outputs s))) * pi / 180)"
    by (simp add: field_simps)
  have c: "- G * pi / 180 = - (G * pi / 180)" by simp
  show ?thesis
    unfolding computeError_def Let_def assms a b c
    by (simp only: sin_minus cos_minus abs_minus_cancel error_terms.simps)
qed

lemma sin_ge_half:
  assumes "0 \<le> x" "x \<le> pi / 3"
  shows "x / 2 \<le> sin x"
proof -
  have "sin 0 - 0 / 2 \<le> sin x - x / 2"
  proof (rule DERIV_nonneg_imp_nondecreasing [where f = "\<lambda>u. sin u - u / 2"])
    show "0 \<le> x" by fact
  next
    fix u :: real
    assume u: "0 \<le> u" "u \<le> x"
    have d: "((\<lambda>u. sin u - u / 2) has_real_derivative (cos u - 1 / 2)) (at u)"
      by (auto intro!: derivative_eq_intros)
    have "cos (pi / 3) \<le> cos u"
      by (rule cos_monotone_0_pi_le) (use u assms pi_gt_zero in linarith)+
    then have "0 \<le> cos u - 1 / 2" by (simp add: cos_60)
    with d show "\<exists>y. ((\<lambda>u. sin u - u / 2) has_real_derivative y) (at u) \<and> 0 \<le> y" by blast
  qed
  then show ?thesis by simp
qed

lemma sin_half_degree: "1 / 360 \<le> sin (pi / 360)" "0 < sin (pi / 360)"
proof -
  have "pi / 360 / 2 \<le> sin (pi / 360)"
    by (rule sin_ge_half) (use pi_gt_zero in simp_all)
  moreover have "2 \<le> pi" by (rule pi_ge_two)
  ultimately show "1 / 360 \<le> sin (pi / 360)" by simp
  then show "0 < sin (pi / 360)" by simp
qed

lemma bearingOf_east: "0 < x \<Longrightarrow> bearingOf x 0 = 90"
  and bearingOf_west: "x < 0 \<Longrightarrow> bearingOf x 0 = 270"
  by (simp_all add: bearingOf_def atan2_def Let_def)

lemma normalizeAngle_210: "normalizeAngle 210 = - 150"
  by (simp add: normalizeAngle_def normalizeAngle_down.simps normalizeAngle_up.simps)

lemma quarter_fields:
  "static (scenario quarter_inputs)"
  "ownCourse (inputs (scenario quarter_inputs)) = - 60"
  "targetSpeed (inputs (scenario quarter_inputs)) = 0"
  "targetX (state (scenario quarter_inputs)) - ownX (state (scenario quarter_inputs)) = 200"
  "targetY (state (scenario quarter_inputs)) - ownY (state (scenario quarter_inputs)) = 0"
  "gyroAngle (scenario quarter_inputs) = 90"
  "servoVelocity (scenario quarter_inputs) = 0"
  "\<not> isSolved (outputs (scenario quarter_inputs))"
  by (simp_all add: scenario_fields static_def setInputs_def assignField_def quarter_inputs_def
      new_fields normalizeAngle_id scenario_def initialize_fields)

lemma mirror_quarter_fields:
  "static (scenario (mirror quarter_inputs))"
  "ownCourse (inputs (scenario (mirror quarter_inputs))) = 60"
  "targetSpeed (inputs (scenario (mirror quarter_inputs))) = 0"
  "targetX (state (scenario (mirror quarter_inputs)))
     - ownX (state (scenario (mirror quarter_inputs))) = - 200"
  "targetY (state (scenario (mirror quarter_inputs)))
     - ownY (state (scenario (mirror quarter_inputs))) = 0"
  "gyroAngle (scenario (mirror quarter_inputs)) = - 90"
  "servoVelocity (scenario (mirror quarter_inputs)) = 0"
  "\<not> isSolved (outputs (scenario (mirror quarter_inputs)))"
  by (simp_all add: scenario_fields static_def setInputs_def assignField_def quarter_inputs_def
      mirror_def new_fields normalizeAngle_id scenario_def initialize_fields)

lemma quarter_turn:
  "sin (pi / 2 + h) = cos h" "cos (pi / 2 + h) = - sin h"
  "sin (pi / 2 - h) = cos h" "cos (pi / 2 - h) = sin h"
  by (simp_all add: sin_add cos_add sin_diff cos_diff)

lemma third_turn:
  "sin (h - pi / 3) = sin h / 2 - sqrt 3 / 2 * cos h"
  "sin (pi / 3 + h) = sqrt 3 / 2 * cos h + sin h / 2"
  "sin (pi / 3 - h) = sqrt 3 / 2 * cos h - sin h / 2"
  by (simp_all add: sin_add sin_diff sin_60 cos_60)

text \<open>The first step of the scenario: the servo turns the gyro back from the clamp.\<close>

lemma quarter_step: "out_gyroAngle (outputs (step 1 (scenario quarter_inputs))) = 448 / 5"
proof -
  let ?s = "scenario quarter_inputs"
  let ?b = "beforeSolver 1 ?s"
  let ?h = "pi / 360 :: real"
  have R: "presentRange (outputs ?b) = 200"
    by (simp add: beforeSolver_geometry updatePositions_static quarter_fields)
  have Br: "relativeBearing (outputs ?b) = 150"
    by (simp add: beforeSolver_geometry updatePositions_static quarter_fields bearingOf_east
        normalizeAngle_id)
  have S: "targetSpeed (inputs ?b) = 0" and g: "gyroAngle ?b = 90"
    and v: "servoVelocity ?b = 0" and f: "\<not> isSolved (outputs ?b)"
    by (simp_all add: beforeSolver_frame quarter_fields)
  have a: "(90 - 150) * pi / 180 = - (pi / 3)" "90 * pi / 180 = pi / 2"
    "(90 + 0.5 - 150) * pi / 180 = ?h - pi / 3" "(90 + 0.5) * pi / 180 = pi / 2 + ?h"
    "(90 - 0.5 - 150) * pi / 180 = - (pi / 3 + ?h)" "(90 - 0.5) * pi / 180 = pi / 2 - ?h"
    by (simp_all add: field_simps)
  have e: "solver_residual ?b = - (100 * sqrt 3) - 255"
    unfolding solver_residual_def errorXVIII_static [OF S] R Br g a
    by (simp add: sin_60)
  have d: "solver_derivative ?b = - (60 * sin ?h)"
    unfolding solver_derivative_def errorXVIII_static [OF S] R Br g a
    by (simp only: quarter_turn third_turn sin_minus cos_minus) (simp add: algebra_simps)
  have s3: "0 \<le> sqrt 3" by simp
  have far: "\<not> \<bar>- (100 * sqrt 3) - 255\<bar> < 50" using s3 by linarith
  have far10: "\<not> \<bar>- (100 * sqrt 3) - 255\<bar> < 10" using s3 by linarith
  have ns: "\<not> solver_solved ?b"
    using far10 by (simp add: solver_solved_def updateSolved_def Let_def f e R solveThreshold_def)
  then have runs: "solver_servoRuns ?b" by (simp add: solver_servoRuns_def)
  have dl: "1 / 360 \<le> sin ?h" by (rule sin_half_degree(1))
  have big: "\<bar>- (60 * sin ?h)\<bar> > 0.1" using dl by linarith
  have neg: "sgn (- (- (100 * sqrt 3) - 255) / (- (60 * sin ?h))) = - 1"
  proof -
    have "0 < 100 * sqrt 3 + 255" using s3 by linarith
    moreover have "0 < 60 * sin ?h" using dl by linarith
    ultimately have "- (- (100 * sqrt 3) - 255) / (- (60 * sin ?h)) < 0"
      by (simp add: divide_neg_pos divide_pos_neg field_simps)
    then show ?thesis by (rule sgn_neg)
  qed
  have tv: "servoTargetVelocity (solver_residual ?b) (solver_derivative ?b) 1.0 = - 8"
    unfolding e d servoTargetVelocity_def Let_def using big neg far
    by (simp add: gyroServoRate_def)
  have vel: "solver_velocity ?b = - (2 / 5)"
    using runs ns tv by (simp add: solver_velocity_def v servoInertia_def)
  have "solver_gyro 1 ?b = 448 / 5"
    using runs by (simp add: solver_gyro_def g vel)
  then show ?thesis by (simp add: step_beforeSolver runAngleSolver_fields)
qed

text \<open>The first step of its mirror image: the servo pushes the gyro into the clamp.\<close>

lemma mirror_quarter_step:
  "out_gyroAngle (outputs (step 1 (scenario (mirror quarter_inputs)))) = - 90"
proof -
  let ?s = "scenario (mirror quarter_inputs)"
  let ?b = "beforeSolver 1 ?s"
  let ?h = "pi / 360 :: real"
  have R: "presentRange (outputs ?b) = 200"
    by (simp add: beforeSolver_geometry updatePositions_static mirror_quarter_fields)
  have Br: "relativeBearing (outputs ?b) = - 150"
    by (simp add: beforeSolver_geometry updatePositions_static mirror_quarter_fields
        bearingOf_west normalizeAngle_210)
  have S: "targetSpeed (inputs ?b) = 0" and g: "gyroAngle ?b = - 90"
    and v: "servoVelocity ?b = 0" and f: "\<not> isSolved (outputs ?b)"
    by (simp_all add: beforeSolver_frame mirror_quarter_fields)
  have a: "(- 90 - - 150) * pi / 180 = pi / 3" "- 90 * pi / 180 = - (pi / 2)"
    "(- 90 + 0.5 - - 150) * pi / 180 = pi / 3 + ?h" "(- 90 + 0.5) * pi / 180 = - (pi / 2 - ?h)"
    "(- 90 - 0.5 - - 150) * pi / 180 = pi / 3 - ?h" "(- 90 - 0.5) * pi / 180 = - (pi / 2 + ?h)"
    by (simp_all add: field_simps)
  have e: "solver_residual ?b = 100 * sqrt 3 - 5"
    unfolding solver_residual_def errorXVIII_static [OF S] R Br g a
    by (simp add: sin_60)
  have d: "solver_derivative ?b = 460 * sin ?h"
    unfolding solver_derivative_def errorXVIII_static [OF S] R Br g a
    by (simp only: quarter_turn third_turn sin_minus cos_minus) (simp add: algebra_simps)
  have s3: "1 \<le> sqrt 3" by simp
  have far: "\<not> \<bar>100 * sqrt 3 - 5\<bar> < 50" using s3 by linarith
  have far10: "\<not> \<bar>100 * sqrt 3 - 5\<bar> < 10" using s3 by linarith
  have ns: "\<not> solver_solved ?b"
    using far10 by (simp add: solver_solved_def updateSolved_def Let_def f e R solveThreshold_def)
  then have runs: "solver_servoRuns ?b" by (simp add: solver_servoRuns_def)
  have dl: "1 / 360 \<le> sin ?h" by (rule sin_half_degree(1))
  have big: "\<bar>460 * sin ?h\<bar> > 0.1" using dl by linarith
  have neg: "sgn (- (100 * sqrt 3 - 5) / (460 * sin ?h)) = - 1"
  proof -
    have "0 < 100 * sqrt 3 - 5" using s3 by linarith
    moreover have "0 < 460 * sin ?h" using dl by linarith
    ultimately have "- (100 * sqrt 3 - 5) / (460 * sin ?h) < 0"
      by (simp add: divide_neg_pos)
    then show ?thesis by (rule sgn_neg)
  qed
  have tv: "servoTargetVelocity (solver_residual ?b) (solver_derivative ?b) 1.0 = - 8"
    unfolding e d servoTargetVelocity_def Let_def using big neg far
    by (simp add: gyroServoRate_def)
  have vel: "solver_velocity ?b = - (2 / 5)"
    using runs ns tv by (simp add: solver_velocity_def v servoInertia_def)
  have "solver_gyro 1 ?b = - 90"
    using runs by (simp add: solver_gyro_def g vel)
  then show ?thesis by (simp add: step_beforeSolver runAngleSolver_fields)
qed

text \<open>
  Claim C5 fails on the code. The scenario and its mirror image start from mirrored gyro
  estimates, 90 and \<open>-90\<close>, and after one step of one second the gyro angles are 89.6 and
  \<open>-90\<close>: the second is not the negation of the first. The present range is 200 in both.
\<close>

theorem mirror_not_negated:
  "gyroAngle (scenario quarter_inputs) = 90
   \<and> gyroAngle (scenario (mirror quarter_inputs)) = - 90
   \<and> presentRange (outputs (step 1 (scenario quarter_inputs))) = 200
   \<and> presentRange (outputs (step 1 (scenario (mirror quarter_inputs)))) = 200
   \<and> out_gyroAngle (outputs (step 1 (scenario quarter_inputs))) = 448 / 5
   \<and> out_gyroAngle (outputs (step 1 (scenario (mirror quarter_inputs)))) = - 90
   \<and> out_gyroAngle (outputs (step 1 (scenario (mirror quarter_inputs))))
       \<noteq> - out_gyroAngle (outputs (step 1 (scenario quarter_inputs)))"
proof -
  have "presentRange (outputs (step 1 (scenario quarter_inputs))) = 200"
    by (simp add: step_beforeSolver runAngleSolver_fields beforeSolver_geometry
        updatePositions_static quarter_fields)
  moreover have "presentRange (outputs (step 1 (scenario (mirror quarter_inputs)))) = 200"
    by (simp add: step_beforeSolver runAngleSolver_fields beforeSolver_geometry
        updatePositions_static mirror_quarter_fields)
  ultimately show ?thesis
    by (simp add: quarter_step mirror_quarter_step quarter_fields mirror_quarter_fields)
qed

subsection \<open>A static scenario that is never solved\<close>

lemma beam_fields:
  "static (scenario beam_inputs)"
  "ownCourse (inputs (scenario beam_inputs)) = 0"
  "targetSpeed (inputs (scenario beam_inputs)) = 0"
  "targetX (state (scenario beam_inputs)) - ownX (state (scenario beam_inputs)) = 2000"
  "targetY (state (scenario beam_inputs)) - ownY (state (scenario beam_inputs)) = 0"
  "gyroAngle (scenario beam_inputs) = 72"
  "servoVelocity (scenario beam_inputs) = 0"
  "\<not> isSolved (outputs (scenario beam_inputs))"
  by (simp_all add: scenario_fields static_def setInputs_def assignField_def beam_inputs_def
      new_fields normalizeAngle_id scenario_def initialize_fields)

lemma beam_geometry:
  "presentRange (outputs (beforeSolver dt (scenario beam_inputs))) = 2000"
  "relativeBearing (outputs (beforeSolver dt (scenario beam_inputs))) = 90"
  by (simp_all add: beforeSolver_geometry updatePositions_static beam_fields bearingOf_east
      normalizeAngle_id)

lemma sin_cos_sixth:
  assumes "pi / 6 \<le> x" "x \<le> pi / 2"
  shows "1 / 2 \<le> sin x" "0 \<le> cos x" "cos x \<le> 1"
proof -
  have "sin (pi / 6) \<le> sin x"
    by (rule sin_monotone_2pi_le) (use assms pi_gt_zero in linarith)+
  then show "1 / 2 \<le> sin x" by (simp add: sin_30)
  show "0 \<le> cos x"
    by (rule cos_ge_zero) (use assms pi_gt_zero in linarith)+
  show "cos x \<le> 1" by simp
qed

lemma half_degree_differences:
  fixes x h :: real
  shows "cos (x + h) - cos (x - h) = - (2 * sin x * sin h)"
    and "sin (x + h) - sin (x - h) = 2 * cos x * sin h"
  by (simp_all add: cos_add cos_diff sin_add sin_diff)

text \<open>
  One step of at least zero seconds keeps the engine in \<open>beam_inv\<close>: the residual is below
  \<open>-192\<close>, the derivative is positive, the servo pushes the gyro up, into the clamp at 90.
\<close>

lemma beam_step:
  assumes inv: "beam_inv s" and dt: "0 \<le> dt"
  shows "beam_inv (step dt s)"
proof -
  let ?sc = "scenario beam_inputs"
  let ?b = "beforeSolver dt s"
  let ?h = "pi / 360 :: real"
  define G where "G = gyroAngle s"
  define x where "x = G * pi / 180"
  have place: "same_place s ?sc" and G30: "30 \<le> G" and G90: "G \<le> 90"
    and v0: "0 \<le> servoVelocity s" and f0: "\<not> isSolved (outputs s)"
    using inv by (simp_all add: beam_inv_def G_def)
  have st: "static s"
    using place beam_fields(1) by (simp add: static_def same_place_def)
  have R: "presentRange (outputs ?b) = 2000"
    using static_same_place(2) [OF st place, of dt dt] by (simp add: beam_geometry)
  have Br: "relativeBearing (outputs ?b) = 90"
    using static_same_place(3) [OF st place, of dt dt] by (simp add: beam_geometry)
  have S: "targetSpeed (inputs ?b) = 0"
    using st by (simp add: beforeSolver_frame static_def)
  have g: "gyroAngle ?b = G" and v: "servoVelocity ?b = servoVelocity s"
    and f: "\<not> isSolved (outputs ?b)"
    using f0 by (simp_all add: beforeSolver_frame G_def)
  have xb: "pi / 6 \<le> x" "x \<le> pi / 2"
    using G30 G90 pi_gt_zero by (simp_all add: x_def field_simps)
  note T = sin_cos_sixth [OF xb]
  have a: "(G - 90) * pi / 180 = - (pi / 2 - x)" "G * pi / 180 = x"
    "(G + 0.5 - 90) * pi / 180 = - (pi / 2 - (x + ?h))" "(G + 0.5) * pi / 180 = x + ?h"
    "(G - 0.5 - 90) * pi / 180 = - (pi / 2 - (x - ?h))" "(G - 0.5) * pi / 180 = x - ?h"
    by (simp_all add: x_def field_simps)
  have e: "solver_residual ?b = - (1870 * cos x) - 130 - 125 * sin x"
    unfolding solver_residual_def errorXVIII_static [OF S] R Br g a
    by (simp only: quarter_turn sin_minus cos_minus) (simp add: algebra_simps)
  have "solver_derivative ?b =
          - (1870 * (cos (x + ?h) - cos (x - ?h))) - 125 * (sin (x + ?h) - sin (x - ?h))"
    unfolding solver_derivative_def errorXVIII_static [OF S] R Br g a
    by (simp only: quarter_turn sin_minus cos_minus) (simp add: algebra_simps)
  then have d: "solver_derivative ?b = 2 * sin ?h * (1870 * sin x - 125 * cos x)"
    by (simp only: half_degree_differences) (simp add: algebra_simps)
  have elow: "solver_residual ?b \<le> - (385 / 2)"
    unfolding e using T by linarith
  have far: "\<not> \<bar>solver_residual ?b\<bar> < 50" "\<not> \<bar>solver_residual ?b\<bar> < 10"
    using elow by linarith+
  have ns: "\<not> solver_solved ?b"
    using far(2) by (simp add: solver_solved_def updateSolved_def Let_def f R solveThreshold_def)
  then have runs: "solver_servoRuns ?b" by (simp add: solver_servoRuns_def)
  have dl: "1 / 360 \<le> sin ?h" by (rule sin_half_degree(1))
  have "810 \<le> 1870 * sin x - 125 * cos x" using T by linarith
  then have "2 * (1 / 360) * 810 \<le> 2 * sin ?h * (1870 * sin x - 125 * cos x)"
    using dl by (intro mult_mono) simp_all
  then have dbig: "9 / 2 \<le> solver_derivative ?b" by (simp add: d)
  have big: "\<bar>solver_derivative ?b\<bar> > 0.1" using dbig by linarith
  have pos: "sgn (- solver_residual ?b / solver_derivative ?b) = 1"
  proof -
    have "0 < - solver_residual ?b" using elow by linarith
    moreover have "0 < solver_derivative ?b" using dbig by linarith
    ultimately have "0 < - solver_residual ?b / solver_derivative ?b" by (rule divide_pos_pos)
    then show ?thesis by (rule sgn_pos)
  qed
  have tv: "servoTargetVelocity (solver_residual ?b) (solver_derivative ?b) 1.0 = 8"
    unfolding servoTargetVelocity_def Let_def using big pos far(1)
    by (simp add: gyroServoRate_def)
  have vel: "solver_velocity ?b = servoVelocity s * 0.95 + 0.4"
    using runs ns tv by (simp add: solver_velocity_def v servoInertia_def)
  then have vpos: "0 \<le> solver_velocity ?b" using v0 by simp
  then have "0 \<le> solver_velocity ?b * dt" using dt by simp
  then have gy: "30 \<le> solver_gyro dt ?b" "solver_gyro dt ?b \<le> 90"
    using runs G30 G90 by (simp_all add: solver_gyro_def g)
  have "same_place (step dt s) ?sc"
    using step_same_place [OF st, of dt] place by (simp add: same_place_def)
  then show ?thesis
    using gy vpos ns by (simp add: beam_inv_def step_beforeSolver runAngleSolver_fields)
qed

lemma beam_inv_start: "beam_inv (scenario beam_inputs)"
  by (simp add: beam_inv_def beam_fields same_place_def)

lemma beam_steps: "beam_inv s \<Longrightarrow> beam_inv (steps (map abs dts) s)"
proof (induction dts arbitrary: s)
  case Nil
  then show ?case by simp
next
  case (Cons dt dts)
  have "beam_inv (step \<bar>dt\<bar> s)" using Cons.prems by (rule beam_step) simp
  from Cons.IH [OF this] show ?case by simp
qed

subsection \<open>Target dead ahead\<close>

text \<open>The bearing computed from a position is the bearing the position was laid out on.\<close>

lemma atan2_polar:
  assumes r: "0 < r"
  shows "sin (atan2 (r * sin t) (r * cos t)) = sin t
         \<and> cos (atan2 (r * sin t) (r * cos t)) = cos t"
proof -
  consider (pos) "0 < cos t" | (neg) "cos t < 0" | (zero) "cos t = 0" by linarith
  then show ?thesis
  proof cases
    case pos
    have q: "r * sin t / (r * cos t) = tan t" using r by (simp add: tan_def)
    have "1 + (tan t)\<^sup>2 = (inverse (cos t))\<^sup>2" using pos by (intro tan_sec) simp
    then have s: "sqrt (1 + (tan t)\<^sup>2) = inverse (cos t)" using pos by simp
    have x: "0 < r * cos t" using r pos by simp
    have "atan2 (r * sin t) (r * cos t) = arctan (r * sin t / (r * cos t))"
      using x by (simp add: atan2_def)
    then have "atan2 (r * sin t) (r * cos t) = arctan (tan t)" by (simp only: q)
    moreover have "cos (arctan (tan t)) = cos t"
      using pos by (simp add: cos_arctan s inverse_eq_divide)
    moreover have "sin (arctan (tan t)) = sin t"
    proof -
      have "sin (arctan (tan t)) = tan t * cos t"
        by (simp add: sin_arctan s inverse_eq_divide)
      also have "\<dots> = sin t" using pos by (simp add: tan_def)
      finally show ?thesis .
    qed
    ultimately show ?thesis by simp
  next
    case neg
    have q: "r * sin t / (r * cos t) = tan t" using r by (simp add: tan_def)
    have "1 + (tan t)\<^sup>2 = (inverse (cos t))\<^sup>2" using neg by (intro tan_sec) simp
    then have s: "sqrt (1 + (tan t)\<^sup>2) = - inverse (cos t)" using neg by simp
    have x: "r * cos t < 0" using r neg by (simp add: mult_pos_neg)
    have c: "cos (arctan (tan t)) = - cos t"
      using neg by (simp add: cos_arctan s inverse_eq_divide)
    have sn: "sin (arctan (tan t)) = - sin t"
    proof -
      have "sin (arctan (tan t)) = - (tan t * cos t)"
        by (simp add: sin_arctan s inverse_eq_divide)
      also have "\<dots> = - sin t" using neg by (simp add: tan_def)
      finally show ?thesis .
    qed
    have "atan2 (r * sin t) (r * cos t) = arctan (r * sin t / (r * cos t)) + pi
          \<or> atan2 (r * sin t) (r * cos t) = arctan (r * sin t / (r * cos t)) - pi"
      using x by (simp add: atan2_def)
    then have "atan2 (r * sin t) (r * cos t) = arctan (tan t) + pi
          \<or> atan2 (r * sin t) (r * cos t) = arctan (tan t) - pi"
      by (simp only: q)
    then show ?thesis using c sn by auto
  next
    case zero
    have "(sin t)\<^sup>2 + (cos t)\<^sup>2 = 1" by simp
    then have "(sin t)\<^sup>2 = 1" using zero by simp
    then have "sin t = 1 \<or> sin t = - 1" by (simp add: power2_eq_1_iff)
    then show ?thesis using zero r by (auto simp add: atan2_def)
  qed
qed

lemma bearingOf_polar:
  assumes "0 < r"
  shows "sin (bearingOf (r * sin t) (r * cos t) * pi / 180) = sin t"
    and "cos (bearingOf (r * sin t) (r * cos t) * pi / 180) = cos t"
proof -
  let ?p = "atan2 (r * sin t) (r * cos t)"
  let ?b = "bearingOf (r * sin t) (r * cos t) * pi / 180"
  have a: "?p * 180 / pi * pi / 180 = ?p" "(?p * 180 / pi + 360) * pi / 180 = ?p + 2 * pi"
    by (simp_all add: field_simps)
  have "bearingOf (r * sin t) (r * cos t) = ?p * 180 / pi
        \<or> bearingOf (r * sin t) (r * cos t) = ?p * 180 / pi + 360"
    by (simp add: bearingOf_def Let_def)
  then have "?b = ?p \<or> ?b = ?p + 2 * pi"
    using a by metis
  then have "sin ?b = sin ?p \<and> cos ?b = cos ?p"
    using sin_periodic [of ?p] cos_periodic [of ?p] by metis
  then show "sin ?b = sin t" and "cos ?b = cos t"
    using atan2_polar [OF assms, of t] by simp_all
qed

text \<open>A multiple of 360 in \<open>[-180, 180]\<close> whose sine is 0 and cosine is 1 is 0.\<close>

lemma degrees_zero:
  assumes "sin (a * pi / 180) = 0" "cos (a * pi / 180) = 1" "- 180 \<le> a" "a \<le> 180"
  shows "a = 0"
proof -
  from assms(2) obtain n :: int where n: "a * pi / 180 = of_int n * 2 * pi"
    using cos_one_2pi_int by blast
  then have "a = 360 * of_int n" using pi_gt_zero by (simp add: field_simps)
  moreover from this assms(3) assms(4) have "- 1 < n" "n < 1"
    by linarith+
  then have "n = 0" by simp
  ultimately show ?thesis by simp
qed

text \<open>
  The relative bearing that the first step publishes after \<^verbatim>\<open>initialize\<close>, when nothing moves
  and the range is positive: its sine and cosine are those of target bearing minus own
  course.
\<close>

lemma initialize_static: "static s \<Longrightarrow> static (initialize s)"
  by (simp add: static_def initialize_fields)

lemma static_relativeBearing:
  assumes st: "static s" and r: "0 < targetRange (inputs s)"
  shows "sin (relativeBearing (outputs (beforeSolver dt (initialize s))) * pi / 180)
           = sin ((targetBearing (inputs s) - ownCourse (inputs s)) * pi / 180)"
    and "cos (relativeBearing (outputs (beforeSolver dt (initialize s))) * pi / 180)
           = cos ((targetBearing (inputs s) - ownCourse (inputs s)) * pi / 180)"
    and "computeIdealGyro (initialize s)
           = relativeBearing (outputs (beforeSolver dt (initialize s)))"
proof -
  let ?i = "initialize s"
  let ?t = "targetBearing (inputs s) * pi / 180"
  let ?B = "bearingOf (targetRange (inputs s) * sin ?t) (targetRange (inputs s) * cos ?t)"
  let ?Br = "relativeBearing (outputs (beforeSolver dt ?i))"
  have sti: "static ?i" using st by (rule initialize_static)
  have Br: "?Br = normalizeAngle (?B - ownCourse (inputs s))"
    by (simp add: beforeSolver_geometry updatePositions_static [OF sti] initialize_fields)
  obtain k :: int where k: "?Br = ?B - ownCourse (inputs s) + 360 * of_int k"
    unfolding Br using normalizeAngle_cong by blast
  have "?Br * pi / 180 = (?B * pi / 180 - ownCourse (inputs s) * pi / 180) + 2 * pi * of_int k"
    unfolding k by (simp add: field_simps)
  then have sc: "sin (?Br * pi / 180) = sin (?B * pi / 180 - ownCourse (inputs s) * pi / 180)"
    "cos (?Br * pi / 180) = cos (?B * pi / 180 - ownCourse (inputs s) * pi / 180)"
    using sin_cos_eq_iff [of "?Br * pi / 180" "?B * pi / 180 - ownCourse (inputs s) * pi / 180"]
    by blast+
  have d: "(targetBearing (inputs s) - ownCourse (inputs s)) * pi / 180
                  = ?t - ownCourse (inputs s) * pi / 180"
    by (simp add: field_simps)
  show "sin (?Br * pi / 180)
           = sin ((targetBearing (inputs s) - ownCourse (inputs s)) * pi / 180)"
    unfolding sc d by (simp only: sin_diff bearingOf_polar [OF r])
  show "cos (?Br * pi / 180)
           = cos ((targetBearing (inputs s) - ownCourse (inputs s)) * pi / 180)"
    unfolding sc d by (simp only: cos_diff bearingOf_polar [OF r])
  show "computeIdealGyro ?i = ?Br"
    by (simp add: computeIdealGyro_static [OF sti] Br initialize_fields)
qed

lemma dead_ahead:
  assumes st: "static s" and r: "0 < targetRange (inputs s)"
    and z: "normalizeAngle (targetBearing (inputs s) - ownCourse (inputs s)) = 0"
  shows "gyroAngle (initialize s) = 0"
    and "stepResidual dt (initialize s) = 0"
    and "computeIdealGyro (initialize s) = 0"
proof -
  let ?i = "initialize s"
  let ?Br = "relativeBearing (outputs (beforeSolver dt ?i))"
  show g: "gyroAngle ?i = 0" by (simp add: initialize_fields z)
  obtain k :: int
    where "0 = targetBearing (inputs s) - ownCourse (inputs s) + 360 * of_int k"
    using normalizeAngle_cong [of "targetBearing (inputs s) - ownCourse (inputs s)"] z by auto
  then have "(targetBearing (inputs s) - ownCourse (inputs s)) * pi / 180
               = 0 + 2 * pi * of_int (- k)"
    by (simp add: field_simps)
  then have "sin ((targetBearing (inputs s) - ownCourse (inputs s)) * pi / 180) = sin 0
           \<and> cos ((targetBearing (inputs s) - ownCourse (inputs s)) * pi / 180) = cos 0"
    using sin_cos_eq_iff by blast
  then have "sin (?Br * pi / 180) = 0" "cos (?Br * pi / 180) = 1"
    using static_relativeBearing(1,2) [OF st r, of dt] by simp_all
  moreover have "- 180 \<le> ?Br" "?Br \<le> 180"
    by (simp_all add: beforeSolver_geometry normalizeAngle_bounds)
  ultimately have Br: "?Br = 0" by (rule degrees_zero)
  have sti: "static ?i" using st by (rule initialize_static)
  show "stepResidual dt ?i = 0"
    by (simp add: residual_static [OF sti] g Br)
  show "computeIdealGyro ?i = 0"
    using static_relativeBearing(3) [OF st r, of dt] Br by simp
qed

subsection \<open>Hysteresis of the solved flag\<close>

text \<open>
  Claim C2. Inside \<^verbatim>\<open>step\<close> the solved flag changes only by the hysteresis rule on
  Error XVIII: nothing before the Angle Solver touches it; a false flag becomes true exactly
  when \<open>|ErrorXVIII| < solveThreshold = max(10, 0.005 R)\<close>, a true flag becomes false
  exactly when \<open>|ErrorXVIII| > unsolveThreshold = 10 * solveThreshold\<close>, with \<open>R\<close> the range
  this step publishes. So a step whose residual stays at or under the unsolve threshold does
  not clear a flag that is set.
\<close>

theorem solved_hysteresis:
  "isSolved (outputs (beforeSolver dt s)) = isSolved (outputs s)
   \<and> stepRange dt s = presentRange (outputs (step dt s))
   \<and> isSolved (outputs (step dt s)) =
     (if isSolved (outputs s)
      then \<not> \<bar>stepResidual dt s\<bar> > 10 * max 10 (0.005 * stepRange dt s)
      else \<bar>stepResidual dt s\<bar> < max 10 (0.005 * stepRange dt s))
   \<and> (isSolved (outputs s) \<and> \<bar>stepResidual dt s\<bar> \<le> 10 * max 10 (0.005 * stepRange dt s)
        \<longrightarrow> isSolved (outputs (step dt s)))"
  by (simp add: step_beforeSolver runAngleSolver_fields beforeSolver_frame solver_solved_def
      updateSolved_def solveThreshold_def unsolvThreshold_def Let_def stepResidual_def
      stepRange_def mult.commute)

theorem solved_hysteresis_witness:
  "isSolved (outputs (step 1 TDCMarkIII_new))
   \<and> \<bar>stepResidual 1 (step 1 TDCMarkIII_new)\<bar>
        \<le> 10 * max 10 (0.005 * stepRange 1 (step 1 TDCMarkIII_new))
   \<and> isSolved (outputs (step 1 (step 1 TDCMarkIII_new)))"
proof -
  have e: "\<bar>stepResidual 1 TDCMarkIII_new\<bar> \<le> solveThreshold (stepRange 1 TDCMarkIII_new) * 0.5"
    by (simp add: new_residual solveThreshold_def)
  note L = step_locks [OF new_fields(1) e]
  have st: "static (step 1 TDCMarkIII_new)"
    using L(2) new_fields(1) by (simp add: static_def same_scene_def same_place_def)
  have r: "stepResidual 1 (step 1 TDCMarkIII_new) = 0" "stepRange 1 (step 1 TDCMarkIII_new) = 0"
    using static_same_scene [OF st L(2), of 1 1] by (simp_all add: new_residual)
  have h: "isSolved (outputs (step 1 TDCMarkIII_new))
           \<and> \<bar>stepResidual 1 (step 1 TDCMarkIII_new)\<bar>
                \<le> 10 * max 10 (0.005 * stepRange 1 (step 1 TDCMarkIII_new))"
    using L(1) by (simp add: r)
  show ?thesis
    using h solved_hysteresis [of 1 "step 1 TDCMarkIII_new"] by blast
qed

subsection \<open>Convergence in a static scenario\<close>




subsection \<open>The range of normalizeAngle\<close>



subsection \<open>What initialize resets\<close>

text \<open>
  Claim C6, as amended. \<^verbatim>\<open>initialize\<close> of the engine with servo inertia seeds the gyro
  estimate with \<open>0.8\<close> times the normalized relative bearing of the target, clamped to
  \<open>[-90, 90]\<close>, zeroes the accumulated value and the two visual rotations of the six
  integrators, zeroes the servo velocity and clears the solved flag. It leaves the five
  differentials (with their accumulated rotation), the three resolvers, the three cams and
  every output but the solved flag as they were. \<^verbatim>\<open>initialize\<close> of the older engine resets
  the six integrators and the solved flag and sets the gyro estimate to \<open>0\<close>.
\<close>

theorem initialize_resets:
  "gyroAngle (initialize s) =
     max (- 90) (min 90 (0.8 * normalizeAngle (targetBearing (inputs s) - ownCourse (inputs s))))
   \<and> int20 (initialize s) = (int20 s)\<lparr>accumulated := 0, discRotation := 0, outputRotation := 0\<rparr>
   \<and> int25 (initialize s) = (int25 s)\<lparr>accumulated := 0, discRotation := 0, outputRotation := 0\<rparr>
   \<and> int14 (initialize s) = (int14 s)\<lparr>accumulated := 0, discRotation := 0, outputRotation := 0\<rparr>
   \<and> int15 (initialize s) = (int15 s)\<lparr>accumulated := 0, discRotation := 0, outputRotation := 0\<rparr>
   \<and> int35 (initialize s) = (int35 s)\<lparr>accumulated := 0, discRotation := 0, outputRotation := 0\<rparr>
   \<and> int36 (initialize s) = (int36 s)\<lparr>accumulated := 0, discRotation := 0, outputRotation := 0\<rparr>
   \<and> servoVelocity (initialize s) = 0
   \<and> outputs (initialize s) = (outputs s)\<lparr>isSolved := False\<rparr>
   \<and> diff7 (initialize s) = diff7 s \<and> diff33 (initialize s) = diff33 s
   \<and> diff28 (initialize s) = diff28 s \<and> diff29 (initialize s) = diff29 s
   \<and> diff22FA (initialize s) = diff22FA s
   \<and> resolver13 (initialize s) = resolver13 s \<and> resolver34 (initialize s) = resolver34 s
   \<and> resolver2FA (initialize s) = resolver2FA s
   \<and> camP (initialize s) = camP s \<and> camJ (initialize s) = camJ s \<and> camUs (initialize s) = camUs s
   \<and> l_gyroAngle (legacy_initialize t) = 0
   \<and> accumulated (l_int20 (legacy_initialize t)) = 0
   \<and> accumulated (l_int25 (legacy_initialize t)) = 0
   \<and> accumulated (l_int14 (legacy_initialize t)) = 0
   \<and> accumulated (l_int15 (legacy_initialize t)) = 0
   \<and> accumulated (l_int35 (legacy_initialize t)) = 0
   \<and> accumulated (l_int36 (legacy_initialize t)) = 0
   \<and> \<not> isSolved (l_outputs (legacy_initialize t))"
  by (simp add: initialize_def legacy_initialize_def Integrator_reset_def Let_def mult.commute)

text \<open>
  The claim as stated fails twice. After one step of a new engine the differential 33 has
  turned by 90, and \<^verbatim>\<open>initialize\<close> leaves it there: a stateful primitive is not reset. And
  the older engine seeds the gyro estimate with \<open>0\<close> where \<open>0.8\<close> times the relative
  bearing 90 is 72.
\<close>

theorem initialize_keeps_rotation:
  "diff_rotation (diff33 (initialize (step 1 TDCMarkIII_new))) = 90
   \<and> l_gyroAngle (legacy_initialize legacy_east) = 0
   \<and> targetBearing (l_inputs legacy_east) = 90
   \<and> max (- 90) (min 90 (0.8 * normalizeAngle
         (targetBearing (l_inputs legacy_east) - ownCourse (l_inputs legacy_east)))) = (72 :: real)"
proof -
  have "diff33 (initialize (step 1 TDCMarkIII_new)) = diff33 (step 1 TDCMarkIII_new)"
    by (simp add: initialize_def Let_def)
  then have "diff_rotation (diff33 (initialize (step 1 TDCMarkIII_new))) = 90"
    by (simp add: step_beforeSolver runAngleSolver_fields beforeSolver_def
        runPositionKeeper_outputs calculatePresentGeometry_frame calculatePresentGeometry_outputs
        updatePositions_frame updatePositions_static new_fields bearingOf_origin)
  moreover have "l_gyroAngle (legacy_initialize legacy_east) = 0"
    by (simp add: legacy_initialize_def Let_def)
  moreover have "targetBearing (l_inputs legacy_east) = 90"
    "ownCourse (l_inputs legacy_east) = 0"
    by (simp_all add: legacy_east_def TDCMarkIII_legacy_new_def)
  ultimately show ?thesis by (simp add: normalizeAngle_id)
qed


end
